theory Spec2Isabelle
  imports Complex_Main "HOL-Library.Sublist"
begin

section \<open>Python values and the operations the pipeline applies to them\<close>

text \<open>
  The pipeline passes around what \<^verbatim>\<open>json.loads\<close> returns: \<^verbatim>\<open>None\<close>, booleans, integers,
  floats, strings, lists and dictionaries with string keys. The float type is a parameter
  \<open>'f\<close>: no arithmetic on floats is done by the repository itself. A dictionary is an
  association list in insertion order; \<open>map_of\<close> is the lookup.
\<close>

datatype 'f json =
    JNull
  | JBool bool
  | JInt int
  | JFloat 'f
  | JStr string
  | JArr "'f json list"
  | JObj "(string \<times> 'f json) list"

text \<open>
  What the Python runtime and the standard library contribute and the repository does not
  define: \<^verbatim>\<open>json.loads\<close> (\<open>None\<close> when it raises), \<^verbatim>\<open>float(str)\<close> (\<open>None\<close> when it raises
  \<^verbatim>\<open>ValueError\<close>), the truth value and the \<^verbatim>\<open>str()\<close> of a float, the \<^verbatim>\<open>str()\<close> of a list or
  dictionary, and the value a \<^verbatim>\<open>float\<close> field of a model class makes of its input (\<open>None\<close> when
  the input is refused).
\<close>

record 'f py_runtime =
  json_loads :: "string \<Rightarrow> 'f json option"
  float_of_str :: "string \<Rightarrow> 'f option"
  float_is_zero :: "'f \<Rightarrow> bool"
  float_str :: "'f \<Rightarrow> string"
  container_str :: "'f json \<Rightarrow> string"
  float_field :: "'f json \<Rightarrow> 'f option"

text \<open>The exceptions that occur, as values. \<open>RetryError\<close> wraps the last failure of a retried call.\<close>

datatype error =
    HTTPError nat
  | RequestException
  | JSONDecodeError
  | KeyError
  | IndexError
  | TypeError
  | AttributeError
  | ValueError
  | ValidationError
  | ServiceError
  | OSError
  | RetryError error

text \<open>
  \<^verbatim>\<open>str.replace(old, new)\<close>: the occurrences of \<open>old\<close> are found from the left and do not overlap.
  With an empty \<open>old\<close> Python puts \<open>new\<close> before every character and at the end.
\<close>

function str_replace :: "string \<Rightarrow> string \<Rightarrow> string \<Rightarrow> string" where
  "str_replace old new s =
     (if old = [] then new @ concat (map (\<lambda>c. c # new) s)
      else if s = [] then []
      else if prefix old s then new @ str_replace old new (drop (length old) s)
      else hd s # str_replace old new (tl s))"
  by pat_completeness auto
termination
  by (relation "measure (\<lambda>(old, new, s). length s)") auto

declare str_replace.simps [simp del]

text \<open>\<^verbatim>\<open>x in s\<close> on strings: \<open>x\<close> occurs in \<open>s\<close> as a contiguous substring.\<close>

fun str_contains :: "string \<Rightarrow> string \<Rightarrow> bool" where
  "str_contains x [] = (x = [])"
| "str_contains x (c # cs) = (prefix x (c # cs) \<or> str_contains x cs)"

text \<open>Decimal rendering of an integer, as \<^verbatim>\<open>str(int)\<close> gives it.\<close>

function str_of_nat :: "nat \<Rightarrow> string" where
  "str_of_nat n =
     (if n < 10 then [char_of (48 + n)]
      else str_of_nat (n div 10) @ [char_of (48 + n mod 10)])"
  by pat_completeness auto
termination
  by (relation "measure id") auto

declare str_of_nat.simps [simp del]

definition str_of_int :: "int \<Rightarrow> string" where
  "str_of_int i = (if i < 0 then CHR ''-'' # str_of_nat (nat (- i)) else str_of_nat (nat i))"

fun py_str :: "'f py_runtime \<Rightarrow> 'f json \<Rightarrow> string" where
  "py_str R JNull = ''None''"
| "py_str R (JBool b) = (if b then ''True'' else ''False'')"
| "py_str R (JInt i) = str_of_int i"
| "py_str R (JFloat x) = float_str R x"
| "py_str R (JStr s) = s"
| "py_str R (JArr xs) = container_str R (JArr xs)"
| "py_str R (JObj d) = container_str R (JObj d)"

text \<open>Truth value of an object in a condition.\<close>

fun py_truthy :: "'f py_runtime \<Rightarrow> 'f json \<Rightarrow> bool" where
  "py_truthy R JNull = False"
| "py_truthy R (JBool b) = b"
| "py_truthy R (JInt i) = (i \<noteq> 0)"
| "py_truthy R (JFloat x) = (\<not> float_is_zero R x)"
| "py_truthy R (JStr s) = (s \<noteq> [])"
| "py_truthy R (JArr xs) = (xs \<noteq> [])"
| "py_truthy R (JObj d) = (d \<noteq> [])"

text \<open>
  \<^verbatim>\<open>str.strip()\<close>: whitespace is removed at both ends. A character is a code point below 256;
  the whitespace among those is 9 to 13, 28 to 32, 133 and 160.
\<close>

definition py_isspace :: "char \<Rightarrow> bool" where
  "py_isspace c =
     (let n = (of_char c :: nat)
      in (9 \<le> n \<and> n \<le> 13) \<or> (28 \<le> n \<and> n \<le> 32) \<or> n = 133 \<or> n = 160)"

definition strip :: "string \<Rightarrow> string" where
  "strip s = rev (dropWhile py_isspace (rev (dropWhile py_isspace s)))"

text \<open>\<^verbatim>\<open>d.get(k, default)\<close> on a dictionary.\<close>

definition dict_get :: "(string \<times> 'f json) list \<Rightarrow> string \<Rightarrow> 'f json \<Rightarrow> 'f json" where
  "dict_get d k dflt = (case map_of d k of None \<Rightarrow> dflt | Some v \<Rightarrow> v)"

text \<open>
  \<^verbatim>\<open>v[0]\<close>: the first element of a list, the first character of a string. An empty list or
  string raises \<^verbatim>\<open>IndexError\<close>; a dictionary raises \<^verbatim>\<open>KeyError\<close> (its keys are strings);
  anything else is not subscriptable.
\<close>

fun py_index0 :: "'f json \<Rightarrow> error + 'f json" where
  "py_index0 (JArr []) = Inl IndexError"
| "py_index0 (JArr (x # xs)) = Inr x"
| "py_index0 (JStr []) = Inl IndexError"
| "py_index0 (JStr (c # cs)) = Inr (JStr [c])"
| "py_index0 (JObj d) = Inl KeyError"
| "py_index0 v = Inl TypeError"

text \<open>\<^verbatim>\<open>v[k]\<close> with a string key: only a dictionary accepts it.\<close>

fun py_getitem :: "'f json \<Rightarrow> string \<Rightarrow> error + 'f json" where
  "py_getitem (JObj d) k = (case map_of d k of None \<Rightarrow> Inl KeyError | Some v \<Rightarrow> Inr v)"
| "py_getitem v k = Inl TypeError"

text \<open>
  \<^verbatim>\<open>for x in v\<close>: the elements of a list, the characters of a string, the keys of a
  dictionary; anything else is not iterable.
\<close>

fun py_iter :: "'f json \<Rightarrow> error + 'f json list" where
  "py_iter (JArr xs) = Inr xs"
| "py_iter (JStr s) = Inr (map (\<lambda>c. JStr [c]) s)"
| "py_iter (JObj d) = Inr (map (\<lambda>kv. JStr (fst kv)) d)"
| "py_iter v = Inl TypeError"

section \<open>The outside world: catalog service, sleeping\<close>

text \<open>
  An HTTP response is its status code and its body. The catalog service is a function of the
  requested URL and of the number of requests made before: a service may answer the same
  URL differently at different times. The world records every request and every sleep.
\<close>

record response =
  status_code :: nat
  text_body :: string

record world =
  http_service :: "string \<Rightarrow> nat \<Rightarrow> error + response"
  request_log :: "string list"
  sleep_log :: "nat list"

definition session_get :: "string \<Rightarrow> 'z world_scheme \<Rightarrow> (error + response) \<times> 'z world_scheme" where
  "session_get url w =
     (http_service w url (length (request_log w)), w\<lparr>request_log := request_log w @ [url]\<rparr>)"

definition sleep :: "nat \<Rightarrow> 'z world_scheme \<Rightarrow> 'z world_scheme" where
  "sleep secs w = w\<lparr>sleep_log := sleep_log w @ [secs]\<rparr>"

text \<open>\<^verbatim>\<open>response.raise_for_status()\<close>: a status from 400 to 599 raises \<^verbatim>\<open>HTTPError\<close>.\<close>

definition raise_for_status :: "response \<Rightarrow> error + unit" where
  "raise_for_status r =
     (if 400 \<le> status_code r \<and> status_code r < 600 then Inl (HTTPError (status_code r))
      else Inr ())"

section \<open>The retry decorator\<close>

text \<open>
  \<^verbatim>\<open>@retry(stop=stop_after_attempt(3), wait=wait_exponential(multiplier=1, min=4, max=10))\<close>.
  The decorator is given no \<^verbatim>\<open>retry=\<close> predicate, so every exception of the decorated function
  counts as a failed attempt. After a failed attempt \<open>k\<close> that is not the last one the
  process sleeps \<open>wait_exponential\<close> seconds and calls the function again; when the last
  attempt fails, \<^verbatim>\<open>RetryError\<close> is raised.
\<close>

definition wait_exponential :: "nat \<Rightarrow> nat \<Rightarrow> nat \<Rightarrow> nat \<Rightarrow> nat" where
  "wait_exponential multiplier lo hi attempt = max lo (min (multiplier * 2 ^ (attempt - 1)) hi)"

function retry_from ::
  "nat \<Rightarrow> nat \<Rightarrow> ('z world_scheme \<Rightarrow> (error + 'a) \<times> 'z world_scheme) \<Rightarrow>
   'z world_scheme \<Rightarrow> (error + 'a) \<times> 'z world_scheme" where
  "retry_from stop_after attempt f w =
     (case f w of
        (Inr v, w') \<Rightarrow> (Inr v, w')
      | (Inl e, w') \<Rightarrow>
          if stop_after \<le> attempt then (Inl (RetryError e), w')
          else retry_from stop_after (Suc attempt) f (sleep (wait_exponential 1 4 10 attempt) w'))"
  by pat_completeness auto
termination
  by (relation "measure (\<lambda>(stop_after, attempt, f, w). stop_after - attempt)") auto

declare retry_from.simps [simp del]

definition retry ::
  "('z world_scheme \<Rightarrow> (error + 'a) \<times> 'z world_scheme) \<Rightarrow>
   'z world_scheme \<Rightarrow> (error + 'a) \<times> 'z world_scheme" where
  "retry f w = retry_from 3 1 f w"

section \<open>CrossrefClient.get_metadata\<close>

definition BASE_URL :: string where
  "BASE_URL = ''https://api.crossref.org/works''"

definition clean_doi :: "string \<Rightarrow> string" where
  "clean_doi doi = str_replace ''https://doi.org/'' '''' doi"

definition metadata_url :: "string \<Rightarrow> string" where
  "metadata_url doi = BASE_URL @ ''/'' @ clean_doi doi"

text \<open>The body of \<^verbatim>\<open>get_metadata\<close>: one attempt.\<close>

definition get_metadata_attempt ::
  "'f py_runtime \<Rightarrow> string \<Rightarrow> 'z world_scheme \<Rightarrow> (error + 'f json) \<times> 'z world_scheme" where
  "get_metadata_attempt R doi w =
     (case session_get (metadata_url doi) w of
        (Inl e, w') \<Rightarrow> (Inl e, w')
      | (Inr resp, w') \<Rightarrow>
          (case raise_for_status resp of
             Inl e \<Rightarrow> (Inl e, w')
           | Inr _ \<Rightarrow>
               (case json_loads R (text_body resp) of
                  None \<Rightarrow> (Inl JSONDecodeError, w')
                | Some j \<Rightarrow> (py_getitem j ''message'', w'))))"

definition get_metadata ::
  "'f py_runtime \<Rightarrow> string \<Rightarrow> 'z world_scheme \<Rightarrow> (error + 'f json) \<times> 'z world_scheme" where
  "get_metadata R doi w = retry (get_metadata_attempt R doi) w"

section \<open>CrossrefClient.extract_paper_info\<close>

text \<open>The dictionary \<^verbatim>\<open>extract_paper_info\<close> returns has a fixed set of keys: a record.\<close>

record 'f paper_info =
  info_doi :: "'f json"
  info_title :: "'f json"
  info_authors :: "string list"
  info_publication_date :: "'f json"
  info_journal :: "'f json"
  info_publisher :: "'f json"
  info_abstract :: "'f json"

text \<open>\<^verbatim>\<open>v.get(k, default)\<close> on any value: only a dictionary has the method.\<close>

fun py_get :: "'f json \<Rightarrow> string \<Rightarrow> 'f json \<Rightarrow> error + 'f json" where
  "py_get (JObj d) k dflt = Inr (dict_get d k dflt)"
| "py_get v k dflt = Inl AttributeError"

text \<open>\<^verbatim>\<open>f"{author.get('given', '')} {author.get('family', '')}".strip()\<close>\<close>

definition author_name :: "'f py_runtime \<Rightarrow> 'f json \<Rightarrow> error + string" where
  "author_name R author =
     (case py_get author ''given'' (JStr []) of
        Inl e \<Rightarrow> Inl e
      | Inr given \<Rightarrow>
          (case py_get author ''family'' (JStr []) of
             Inl e \<Rightarrow> Inl e
           | Inr family \<Rightarrow> Inr (strip (py_str R given @ '' '' @ py_str R family))))"

text \<open>The loop over \<^verbatim>\<open>metadata["author"]\<close>, appending every non-empty name.\<close>

fun collect_authors :: "'f py_runtime \<Rightarrow> 'f json list \<Rightarrow> string list \<Rightarrow> error + string list" where
  "collect_authors R [] acc = Inr acc"
| "collect_authors R (a # as) acc =
     (case author_name R a of
        Inl e \<Rightarrow> Inl e
      | Inr name \<Rightarrow> collect_authors R as (if name \<noteq> [] then acc @ [name] else acc))"

text \<open>\<^verbatim>\<open>metadata.get(k, [""])[0] if metadata.get(k) else ""\<close>\<close>

definition first_or_empty ::
  "'f py_runtime \<Rightarrow> (string \<times> 'f json) list \<Rightarrow> string \<Rightarrow> error + 'f json" where
  "first_or_empty R metadata k =
     (if py_truthy R (dict_get metadata k JNull)
      then py_index0 (dict_get metadata k (JArr [JStr []]))
      else Inr (JStr []))"

text \<open>
  \<^verbatim>\<open>extract_paper_info\<close> on a dictionary. The statements run in the source's order: the
  author loop, then the entries of the returned dictionary from \<^verbatim>\<open>"doi"\<close> to \<^verbatim>\<open>"abstract"\<close>.
\<close>

definition extract_paper_info_dict ::
  "'f py_runtime \<Rightarrow> (string \<times> 'f json) list \<Rightarrow> error + 'f paper_info" where
  "extract_paper_info_dict R metadata =
     (case (case map_of metadata ''author'' of
              None \<Rightarrow> Inr []
            | Some v \<Rightarrow>
                (case py_iter v of Inl e \<Rightarrow> Inl e | Inr as \<Rightarrow> collect_authors R as [])) of
        Inl e \<Rightarrow> Inl e
      | Inr author_list \<Rightarrow>
     (case first_or_empty R metadata ''title'' of
        Inl e \<Rightarrow> Inl e
      | Inr first_title \<Rightarrow>
     (case py_get (dict_get metadata ''published-print'' (JObj [])) ''date-parts''
             (JArr [JArr [JNull]]) of
        Inl e \<Rightarrow> Inl e
      | Inr date_parts \<Rightarrow>
     (case py_index0 date_parts of
        Inl e \<Rightarrow> Inl e
      | Inr first_date \<Rightarrow>
     (case first_or_empty R metadata ''container-title'' of
        Inl e \<Rightarrow> Inl e
      | Inr first_container \<Rightarrow>
          Inr \<lparr>info_doi = dict_get metadata ''DOI'' (JStr []),
               info_title = first_title,
               info_authors = author_list,
               info_publication_date = first_date,
               info_journal = first_container,
               info_publisher = dict_get metadata ''publisher'' (JStr []),
               info_abstract = dict_get metadata ''abstract'' (JStr [])\<rparr>)))))"

text \<open>
  On a value that is not a dictionary the function always raises: \<^verbatim>\<open>"author" in metadata\<close> is
  a type error on a number, boolean or \<^verbatim>\<open>None\<close>; on a list or string it is a membership or
  substring test, after which either \<^verbatim>\<open>metadata["author"]\<close> or \<^verbatim>\<open>metadata.get\<close> fails.
\<close>

fun extract_paper_info :: "'f py_runtime \<Rightarrow> 'f json \<Rightarrow> error + 'f paper_info" where
  "extract_paper_info R (JObj metadata) = extract_paper_info_dict R metadata"
| "extract_paper_info R (JArr xs) =
     (if JStr ''author'' \<in> set xs then Inl TypeError else Inl AttributeError)"
| "extract_paper_info R (JStr s) =
     (if str_contains ''author'' s then Inl TypeError else Inl AttributeError)"
| "extract_paper_info R v = Inl TypeError"

section \<open>PaperMetadata, as process_papers constructs it\<close>

record PaperMetadata =
  doi :: string
  title :: string
  authors :: "string list"
  publication_date :: "string option"
  journal :: "string option"

text \<open>
  \<^verbatim>\<open>str(extracted_info['publication_date'][0]) if extracted_info['publication_date'] else None\<close>
\<close>

definition publication_date_arg :: "'f py_runtime \<Rightarrow> 'f json \<Rightarrow> error + string option" where
  "publication_date_arg R pd =
     (if py_truthy R pd
      then (case py_index0 pd of Inl e \<Rightarrow> Inl e | Inr v \<Rightarrow> Inr (Some (py_str R v)))
      else Inr None)"

text \<open>
  The validation of the model class: a \<^verbatim>\<open>str\<close> field takes a string, an \<^verbatim>\<open>Optional[str]\<close> field
  a string or \<^verbatim>\<open>None\<close>; any other value is a \<^verbatim>\<open>ValidationError\<close>.
\<close>

definition validate_str :: "'f json \<Rightarrow> error + string" where
  "validate_str v = (case v of JStr s \<Rightarrow> Inr s | _ \<Rightarrow> Inl ValidationError)"

definition validate_optional_str :: "'f json \<Rightarrow> error + string option" where
  "validate_optional_str v =
     (case v of JNull \<Rightarrow> Inr None | JStr s \<Rightarrow> Inr (Some s) | _ \<Rightarrow> Inl ValidationError)"

text \<open>Lines 59 to 66 of \<^verbatim>\<open>main.py\<close>: the arguments are evaluated, then validated.\<close>

definition make_paper_metadata :: "'f py_runtime \<Rightarrow> 'f paper_info \<Rightarrow> error + PaperMetadata" where
  "make_paper_metadata R extracted_info =
     (case publication_date_arg R (info_publication_date extracted_info) of
        Inl e \<Rightarrow> Inl e
      | Inr pd \<Rightarrow>
     (case validate_str (info_doi extracted_info) of
        Inl e \<Rightarrow> Inl e
      | Inr d \<Rightarrow>
     (case validate_str (info_title extracted_info) of
        Inl e \<Rightarrow> Inl e
      | Inr t \<Rightarrow>
     (case validate_optional_str (info_journal extracted_info) of
        Inl e \<Rightarrow> Inl e
      | Inr j \<Rightarrow>
          Inr \<lparr>doi = d, title = t, authors = info_authors extracted_info,
               publication_date = pd, journal = j\<rparr>))))"

section \<open>Example inputs\<close>

text \<open>
  A runtime for the examples, in which no float occurs. Its \<^verbatim>\<open>json.loads\<close> knows one document,
  written \<open>''M''\<close> here: a catalog envelope whose message holds a DOI and a title.
\<close>

definition example_message :: "unit json" where
  "example_message =
     JObj [(''DOI'', JStr ''10.3390/cryst9110586''), (''title'', JArr [JStr ''Effect of ECAP''])]"

definition example_runtime :: "unit py_runtime" where
  "example_runtime =
     \<lparr>json_loads = (\<lambda>s. if s = ''M'' then Some (JObj [(''message'', example_message)]) else None),
      float_of_str = (\<lambda>s. None),
      float_is_zero = (\<lambda>x. True),
      float_str = (\<lambda>x. ''0.0''),
      container_str = (\<lambda>v. ''[]''),
      float_field = (\<lambda>v. None)\<rparr>"

text \<open>A catalog that answers every request with the given status and body.\<close>

definition constant_world :: "nat \<Rightarrow> string \<Rightarrow> world" where
  "constant_world status body =
     \<lparr>http_service = (\<lambda>url n. Inr \<lparr>status_code = status, text_body = body\<rparr>),
      request_log = [], sleep_log = []\<rparr>"

section \<open>The shape of a catalog document\<close>

text \<open>
  The shape the catalog gives the fields that \<^verbatim>\<open>extract_paper_info\<close> takes apart, for the
  fields that are present: \<^verbatim>\<open>author\<close> is a list of dictionaries, \<^verbatim>\<open>title\<close> and
  \<^verbatim>\<open>container-title\<close> are lists, \<^verbatim>\<open>published-print\<close> is a dictionary whose \<^verbatim>\<open>date-parts\<close>, when
  present, is a non-empty list. Nothing is asked of a field that is missing.
\<close>

fun is_dict :: "'f json \<Rightarrow> bool" where
  "is_dict (JObj d) = True"
| "is_dict v = False"

fun is_list :: "'f json \<Rightarrow> bool" where
  "is_list (JArr xs) = True"
| "is_list v = False"

fun is_nonempty_list :: "'f json \<Rightarrow> bool" where
  "is_nonempty_list (JArr (x # xs)) = True"
| "is_nonempty_list v = False"

fun dates_shaped :: "'f json \<Rightarrow> bool" where
  "dates_shaped (JObj d) =
     (case map_of d ''date-parts'' of None \<Rightarrow> True | Some v \<Rightarrow> is_nonempty_list v)"
| "dates_shaped v = False"

fun authors_shaped :: "'f json \<Rightarrow> bool" where
  "authors_shaped (JArr xs) = list_all is_dict xs"
| "authors_shaped v = False"

definition catalog_shaped :: "(string \<times> 'f json) list \<Rightarrow> bool" where
  "catalog_shaped metadata =
     ((case map_of metadata ''author'' of None \<Rightarrow> True | Some v \<Rightarrow> authors_shaped v)
      \<and> (case map_of metadata ''title'' of None \<Rightarrow> True | Some v \<Rightarrow> is_list v)
      \<and> (case map_of metadata ''container-title'' of None \<Rightarrow> True | Some v \<Rightarrow> is_list v)
      \<and> (case map_of metadata ''published-print'' of None \<Rightarrow> True | Some v \<Rightarrow> dates_shaped v))"

section \<open>LLMExtractor.extract_properties\<close>

text \<open>
  The world of the extractor adds the reasoning service and the PDF reader. The service is a
  function of the paper title and the truncated text put into the prompt (the system
  instruction, the temperature and the response format are constants of every request) and
  of the number of calls made before; it gives the content of the reply or fails. The
  world records every call. \<open>pdf_pages\<close> is what the PDF library reads from the file at a
  path: the text of each page. \<open>now\<close> is the clock reading put into a result.
\<close>

record llm_world = world +
  chat_service :: "string \<Rightarrow> string \<Rightarrow> nat \<Rightarrow> error + string"
  chat_log :: "(string \<times> string) list"
  pdf_pages :: "string \<Rightarrow> error + string list"
  now :: string

text \<open>
  The loop \<^verbatim>\<open>for value in data.values(): if isinstance(value, list): return value\<close>.
\<close>

fun first_list :: "'f json list \<Rightarrow> 'f json option" where
  "first_list [] = None"
| "first_list (v # vs) = (if is_list v then Some v else first_list vs)"

text \<open>
  The lines under \<^verbatim>\<open># Handle different response formats\<close>, on the parsed document. What is
  returned is a Python value: under \<^verbatim>\<open>properties\<close> and \<^verbatim>\<open>data\<close> the source returns whatever
  the key holds.
\<close>

definition response_records :: "'f json \<Rightarrow> 'f json" where
  "response_records data =
     (case data of
        JObj d \<Rightarrow>
          (case map_of d ''properties'' of
             Some v \<Rightarrow> v
           | None \<Rightarrow>
               (case map_of d ''data'' of
                  Some v \<Rightarrow> v
                | None \<Rightarrow>
                    (case first_list (map snd d) of
                       Some v \<Rightarrow> v
                     | None \<Rightarrow> JArr [])))
      | JArr xs \<Rightarrow> JArr xs
      | _ \<Rightarrow> JArr [])"

text \<open>
  The body of \<^verbatim>\<open>extract_properties\<close>: one call of the service inside
  \<^verbatim>\<open>try: ... except Exception: return []\<close>. Every failure of the call, and a reply that is not
  JSON, ends in the \<^verbatim>\<open>except\<close> branch, so the body never raises.
\<close>

definition extract_properties_attempt ::
  "'f py_runtime \<Rightarrow> string \<Rightarrow> (string \<times> 'f json) list \<Rightarrow> 'z llm_world_scheme \<Rightarrow>
   (error + 'f json) \<times> 'z llm_world_scheme" where
  "extract_properties_attempt R text paper_info w =
     (let paper_title = py_str R (dict_get paper_info ''title'' (JStr ''Unknown''));
          prompt_text = take 8000 text;
          w' = w\<lparr>chat_log := chat_log w @ [(paper_title, prompt_text)]\<rparr>
      in case chat_service w paper_title prompt_text (length (chat_log w)) of
           Inl e \<Rightarrow> (Inr (JArr []), w')
         | Inr content \<Rightarrow>
             (case json_loads R content of
                None \<Rightarrow> (Inr (JArr []), w')
              | Some data \<Rightarrow> (Inr (response_records data), w')))"

definition extract_properties ::
  "'f py_runtime \<Rightarrow> string \<Rightarrow> (string \<times> 'f json) list \<Rightarrow> 'z llm_world_scheme \<Rightarrow>
   (error + 'f json) \<times> 'z llm_world_scheme" where
  "extract_properties R text paper_info w = retry (extract_properties_attempt R text paper_info) w"

section \<open>MechanicalProperty and LLMExtractor.extract_from_paper\<close>

text \<open>
  The model class of \<^verbatim>\<open>schemas.py\<close>. Its fields \<^verbatim>\<open>value\<close> and \<^verbatim>\<open>unit\<close> are \<open>mp_value\<close> and
  \<open>mp_unit\<close> here.
\<close>

record 'f MechanicalProperty =
  material :: string
  condition :: "string option"
  property_name :: string
  mp_value :: 'f
  mp_unit :: string
  temperature :: "'f option"
  temperature_unit :: "string option"
  strain_rate :: "'f option"
  additional_info :: "(string \<times> 'f json) list option"

definition validate_float :: "'f py_runtime \<Rightarrow> 'f json \<Rightarrow> error + 'f" where
  "validate_float R v = (case float_field R v of None \<Rightarrow> Inl ValidationError | Some x \<Rightarrow> Inr x)"

definition validate_optional_float :: "'f py_runtime \<Rightarrow> 'f json \<Rightarrow> error + 'f option" where
  "validate_optional_float R v =
     (case v of
        JNull \<Rightarrow> Inr None
      | _ \<Rightarrow> (case float_field R v of None \<Rightarrow> Inl ValidationError | Some x \<Rightarrow> Inr (Some x)))"

definition validate_optional_dict :: "'f json \<Rightarrow> error + (string \<times> 'f json) list option" where
  "validate_optional_dict v =
     (case v of JNull \<Rightarrow> Inr None | JObj d \<Rightarrow> Inr (Some d) | _ \<Rightarrow> Inl ValidationError)"

text \<open>A field declared with \<^verbatim>\<open>Field(...)\<close> is required; the others have a default.\<close>

definition required_field ::
  "(string \<times> 'f json) list \<Rightarrow> string \<Rightarrow> ('f json \<Rightarrow> error + 'a) \<Rightarrow> error + 'a" where
  "required_field d k validate =
     (case map_of d k of None \<Rightarrow> Inl ValidationError | Some v \<Rightarrow> validate v)"

definition default_field ::
  "(string \<times> 'f json) list \<Rightarrow> string \<Rightarrow> 'a \<Rightarrow> ('f json \<Rightarrow> error + 'a) \<Rightarrow> error + 'a" where
  "default_field d k dflt validate =
     (case map_of d k of None \<Rightarrow> Inr dflt | Some v \<Rightarrow> validate v)"

text \<open>\<^verbatim>\<open>MechanicalProperty(**prop)\<close>: keys that are not fields are ignored.\<close>

definition MechanicalProperty_init ::
  "'f py_runtime \<Rightarrow> (string \<times> 'f json) list \<Rightarrow> error + 'f MechanicalProperty" where
  "MechanicalProperty_init R prop =
     (case required_field prop ''material'' validate_str of Inl e \<Rightarrow> Inl e | Inr f1 \<Rightarrow>
     (case default_field prop ''condition'' None validate_optional_str of Inl e \<Rightarrow> Inl e | Inr f2 \<Rightarrow>
     (case required_field prop ''property_name'' validate_str of Inl e \<Rightarrow> Inl e | Inr f3 \<Rightarrow>
     (case required_field prop ''value'' (validate_float R) of Inl e \<Rightarrow> Inl e | Inr f4 \<Rightarrow>
     (case required_field prop ''unit'' validate_str of Inl e \<Rightarrow> Inl e | Inr f5 \<Rightarrow>
     (case default_field prop ''temperature'' None (validate_optional_float R) of
        Inl e \<Rightarrow> Inl e | Inr f6 \<Rightarrow>
     (case default_field prop ''temperature_unit'' None validate_optional_str of
        Inl e \<Rightarrow> Inl e | Inr f7 \<Rightarrow>
     (case default_field prop ''strain_rate'' None (validate_optional_float R) of
        Inl e \<Rightarrow> Inl e | Inr f8 \<Rightarrow>
     (case default_field prop ''additional_info'' (Some []) validate_optional_dict of
        Inl e \<Rightarrow> Inl e | Inr f9 \<Rightarrow>
          Inr \<lparr>material = f1, condition = f2, property_name = f3, mp_value = f4, mp_unit = f5,
               temperature = f6, temperature_unit = f7, strain_rate = f8,
               additional_info = f9\<rparr>)))))))))"

text \<open>\<^verbatim>\<open>d[k] = v\<close>: an existing key keeps its place, a new key goes to the end.\<close>

fun dict_set :: "(string \<times> 'f json) list \<Rightarrow> string \<Rightarrow> 'f json \<Rightarrow> (string \<times> 'f json) list" where
  "dict_set [] k v = [(k, v)]"
| "dict_set (kv # d) k v = (if fst kv = k then (k, v) # d else kv # dict_set d k v)"

text \<open>
  The clean-up inside the \<^verbatim>\<open>try\<close> of the conversion loop:
  \<^verbatim>\<open>if isinstance(prop.get("value"), str): prop["value"] = float(prop["value"].replace(",", ""))\<close>.
  An element that is not a dictionary has no \<^verbatim>\<open>get\<close>.
\<close>

definition clean_value :: "'f py_runtime \<Rightarrow> 'f json \<Rightarrow> error + (string \<times> 'f json) list" where
  "clean_value R prop =
     (case prop of
        JObj d \<Rightarrow>
          (case dict_get d ''value'' JNull of
             JStr s \<Rightarrow>
               (case float_of_str R (str_replace '','' [] s) of
                  None \<Rightarrow> Inl ValueError
                | Some x \<Rightarrow> Inr (dict_set d ''value'' (JFloat x)))
           | _ \<Rightarrow> Inr d)
      | _ \<Rightarrow> Inl AttributeError)"

text \<open>One pass of the loop body: \<open>None\<close> when the \<^verbatim>\<open>except\<close> branch is taken.\<close>

definition convert_property :: "'f py_runtime \<Rightarrow> 'f json \<Rightarrow> 'f MechanicalProperty option" where
  "convert_property R prop =
     (case clean_value R prop of
        Inl e \<Rightarrow> None
      | Inr d \<Rightarrow> (case MechanicalProperty_init R d of Inl e \<Rightarrow> None | Inr mp \<Rightarrow> Some mp))"

text \<open>The loop \<^verbatim>\<open>for prop in raw_properties\<close> with its list \<^verbatim>\<open>properties\<close>.\<close>

fun convert_properties ::
  "'f py_runtime \<Rightarrow> 'f json list \<Rightarrow> 'f MechanicalProperty list \<Rightarrow> 'f MechanicalProperty list" where
  "convert_properties R [] properties = properties"
| "convert_properties R (prop # rest) properties =
     (case convert_property R prop of
        None \<Rightarrow> convert_properties R rest properties
      | Some mp \<Rightarrow> convert_properties R rest (properties @ [mp]))"

record 'f ExtractedData =
  paper_metadata :: PaperMetadata
  mechanical_properties :: "'f MechanicalProperty list"
  extraction_timestamp :: string
  extraction_method :: string

definition model_dump :: "PaperMetadata \<Rightarrow> (string \<times> 'f json) list" where
  "model_dump pm =
     [(''doi'', JStr (doi pm)), (''title'', JStr (title pm)),
      (''authors'', JArr (map JStr (authors pm))),
      (''publication_date'', case publication_date pm of None \<Rightarrow> JNull | Some s \<Rightarrow> JStr s),
      (''journal'', case journal pm of None \<Rightarrow> JNull | Some s \<Rightarrow> JStr s)]"

text \<open>\<^verbatim>\<open>extract_text_from_pdf\<close>: the text of every page, each followed by a newline.\<close>

definition extract_text_from_pdf :: "string \<Rightarrow> 'z llm_world_scheme \<Rightarrow> error + string" where
  "extract_text_from_pdf pdf_path w =
     (case pdf_pages w pdf_path of
        Inl e \<Rightarrow> Inl e
      | Inr pages \<Rightarrow> Inr (concat (map (\<lambda>page. page @ [CHR 0x0A]) pages)))"

definition extract_from_paper ::
  "'f py_runtime \<Rightarrow> string \<Rightarrow> PaperMetadata \<Rightarrow> 'z llm_world_scheme \<Rightarrow>
   (error + 'f ExtractedData) \<times> 'z llm_world_scheme" where
  "extract_from_paper R pdf_path pm w =
     (case extract_text_from_pdf pdf_path w of
        Inl e \<Rightarrow> (Inl e, w)
      | Inr text \<Rightarrow>
          (case extract_properties R text (model_dump pm) w of
             (Inl e, w1) \<Rightarrow> (Inl e, w1)
           | (Inr raw_properties, w1) \<Rightarrow>
               (case py_iter raw_properties of
                  Inl e \<Rightarrow> (Inl e, w1)
                | Inr props \<Rightarrow>
                    (Inr \<lparr>paper_metadata = pm,
                          mechanical_properties = convert_properties R props [],
                          extraction_timestamp = now w1,
                          extraction_method = ''llm''\<rparr>, w1))))"

section \<open>Example inputs of the extractor\<close>

text \<open>
  A runtime whose floats are real numbers and whose \<^verbatim>\<open>float\<close> knows the literal \<open>1234.5\<close>; a float
  field takes a float as it is and an integer as its value.
\<close>

definition real_runtime :: "real py_runtime" where
  "real_runtime =
     \<lparr>json_loads = (\<lambda>s. None),
      float_of_str = (\<lambda>s. if s = ''1234.5'' then Some 1234.5 else None),
      float_is_zero = (\<lambda>x. x = 0),
      float_str = (\<lambda>x. ''0.0''),
      container_str = (\<lambda>v. ''[]''),
      float_field = (\<lambda>v. case v of JFloat x \<Rightarrow> Some x | JInt i \<Rightarrow> Some (of_int i) | _ \<Rightarrow> None)\<rparr>"

definition tensile_record :: "real json" where
  "tensile_record =
     JObj [(''material'', JStr ''Mg-2Y''), (''property_name'', JStr ''UTS''),
           (''value'', JStr ''1,234.5''), (''unit'', JStr ''MPa'')]"

definition hardness_record :: "real json" where
  "hardness_record =
     JObj [(''material'', JStr ''Cu''), (''property_name'', JStr ''hardness''),
           (''value'', JInt 95), (''unit'', JStr ''HV'')]"

text \<open>
  A world whose reasoning service fails at the first call and replies \<open>''[]''\<close> afterwards.
\<close>

definition flaky_llm_world :: llm_world where
  "flaky_llm_world =
     \<lparr>http_service = (\<lambda>url n. Inl RequestException), request_log = [], sleep_log = [],
      chat_service = (\<lambda>t x n. if n = 0 then Inl ServiceError else Inr ''[]''),
      chat_log = [], pdf_pages = (\<lambda>p. Inr []), now = ''2025-01-01T00:00:00''\<rparr>"

text \<open>
  A runtime whose \<^verbatim>\<open>json.loads\<close> knows one reply, written \<open>''P''\<close> here: the object whose
  \<^verbatim>\<open>properties\<close> key holds \<^verbatim>\<open>null\<close>. A world whose reasoning service always gives that reply
  and whose PDF reader gives one page, and the metadata of a paper.
\<close>

definition null_properties_runtime :: "unit py_runtime" where
  "null_properties_runtime =
     \<lparr>json_loads = (\<lambda>s. if s = ''P'' then Some (JObj [(''properties'', JNull)]) else None),
      float_of_str = (\<lambda>s. None),
      float_is_zero = (\<lambda>x. True),
      float_str = (\<lambda>x. ''0.0''),
      container_str = (\<lambda>v. ''[]''),
      float_field = (\<lambda>v. None)\<rparr>"

definition null_properties_world :: llm_world where
  "null_properties_world =
     \<lparr>http_service = (\<lambda>url n. Inl RequestException), request_log = [], sleep_log = [],
      chat_service = (\<lambda>t x n. Inr ''P''),
      chat_log = [], pdf_pages = (\<lambda>p. Inr [''Table 1'']), now = ''2025-01-01T00:00:00''\<rparr>"

definition example_paper_metadata :: PaperMetadata where
  "example_paper_metadata =
     \<lparr>doi = ''10.3390/cryst9110586'', title = ''Effect of ECAP'', authors = [],
      publication_date = None, journal = None\<rparr>"

section \<open>CrossrefClient.download_pdf\<close>

text \<open>
  The output directory is a list of files in the order a directory scan gives them; a file
  has a name, a modification time and a content. A browser session is what the driver lets
  the code observe: whether the driver starts, whether a page loads, whether the dropdown
  path ends in a click on its PDF entry, whether a selector becomes clickable and is
  clicked, the current URL, and what the directory holds a number of seconds after the
  click, given what it held before. The world of the pipeline adds the directory, the
  session the driver gives for a URL and the time stamped on a file that is written.
\<close>

record entry =
  file_name :: string
  mtime :: int
  content :: string

record browser =
  starts :: bool
  loads :: "string \<Rightarrow> bool"
  dropdown_pdf_clicked :: bool
  button_clicked :: "string \<Rightarrow> bool"
  current_url :: string
  directory_after :: "nat \<Rightarrow> entry list \<Rightarrow> entry list"

record pipeline_world = llm_world +
  files :: "entry list"
  browser_of :: "string \<Rightarrow> browser"
  clock :: int

definition download_selectors :: "string list" where
  "download_selectors =
     [''//button[contains(text(), 'Download PDF')]'',
      ''//a[contains(text(), 'Download PDF')]'',
      ''//button[contains(@class, 'download')]//span[contains(text(), 'PDF')]'',
      ''//div[@class='dropdown-menu show']//a[contains(text(), 'Download PDF')]'',
      ''//button[@id='download-button']'']"

text \<open>\<^verbatim>\<open>s.rstrip('/')\<close>\<close>

definition rstrip_slash :: "string \<Rightarrow> string" where
  "rstrip_slash s = rev (dropWhile (\<lambda>c. c = CHR ''/'') (rev s))"

text \<open>\<^verbatim>\<open>output_dir.glob("*.crdownload") + output_dir.glob("*.tmp")\<close> and \<^verbatim>\<open>output_dir.glob("*.pdf")\<close>\<close>

definition temp_files :: "entry list \<Rightarrow> entry list" where
  "temp_files dir =
     filter (\<lambda>f. suffix ''.crdownload'' (file_name f)) dir @
     filter (\<lambda>f. suffix ''.tmp'' (file_name f)) dir"

definition pdf_files :: "entry list \<Rightarrow> entry list" where
  "pdf_files dir = filter (\<lambda>f. suffix ''.pdf'' (file_name f)) dir"

text \<open>
  The loop \<^verbatim>\<open>while temp_files and wait_time < max_wait\<close>, with \<^verbatim>\<open>max_wait = 30\<close>: the number of
  one-second sleeps it makes. \<open>snapshot t\<close> is the directory after \<open>t\<close> of them.
\<close>

function wait_for_download :: "(nat \<Rightarrow> entry list) \<Rightarrow> nat \<Rightarrow> nat" where
  "wait_for_download snapshot wait_time =
     (if temp_files (snapshot wait_time) \<noteq> [] \<and> wait_time < 30
      then wait_for_download snapshot (Suc wait_time)
      else wait_time)"
  by pat_completeness auto
termination
  by (relation "measure (\<lambda>(snapshot, wait_time). 30 - wait_time)") auto

declare wait_for_download.simps [simp del]

text \<open>
  \<^verbatim>\<open>max(pdf_files, key=lambda p: p.stat().st_mtime)\<close> on a non-empty list: the first file
  among those with the greatest modification time.
\<close>

fun latest_of :: "entry \<Rightarrow> entry list \<Rightarrow> entry" where
  "latest_of best [] = best"
| "latest_of best (f # fs) = latest_of (if mtime best < mtime f then f else best) fs"

text \<open>
  \<^verbatim>\<open>latest_pdf.rename(output_path)\<close> inside the directory, as POSIX does it: a file that has
  the new name is replaced.
\<close>

definition rename_file :: "entry \<Rightarrow> string \<Rightarrow> entry list \<Rightarrow> entry list" where
  "rename_file f new_name dir =
     map (\<lambda>g. if g = f then g\<lparr>file_name := new_name\<rparr> else g)
       (filter (\<lambda>g. file_name g \<noteq> new_name) dir)"

text \<open>
  The branch \<^verbatim>\<open>if download_clicked:\<close>. It gives the result of the strategy (\<open>None\<close> when no
  PDF is found), the directory it leaves and the sleeps it made.
\<close>

definition collect_download ::
  "browser \<Rightarrow> string \<Rightarrow> entry list \<Rightarrow> string option \<times> entry list \<times> nat list" where
  "collect_download b filename dir0 =
     (let waited = wait_for_download (\<lambda>t. directory_after b t dir0) 0;
          dir = directory_after b waited dir0;
          sleeps = 5 # replicate waited 1
      in case pdf_files dir of
           [] \<Rightarrow> (None, dir, sleeps)
         | f # fs \<Rightarrow>
             (let latest_pdf = latest_of f fs
              in (Some filename,
                  if file_name latest_pdf \<noteq> filename then rename_file latest_pdf filename dir
                  else dir,
                  sleeps)))"

text \<open>
  The value of \<^verbatim>\<open>download_clicked\<close> when the \<^verbatim>\<open>if download_clicked:\<close> test is reached, or
  \<open>None\<close> when the navigation to the direct PDF URL raises.
\<close>

definition download_clicked :: "browser \<Rightarrow> bool option" where
  "download_clicked b =
     (if dropdown_pdf_clicked b then Some True
      else if list_ex (button_clicked b) download_selectors then Some True
      else if str_contains ''mdpi.com'' (current_url b)
      then (if loads b (rstrip_slash (current_url b) @ ''/pdf'') then Some True else None)
      else Some False)"

definition doi_url :: "string \<Rightarrow> string" where
  "doi_url doi_clean = ''https://doi.org/'' @ doi_clean"

text \<open>
  The \<^verbatim>\<open>try\<close> block of \<^verbatim>\<open>download_pdf\<close>: an exception ends the strategy without a result.
\<close>

definition interactive_strategy ::
  "browser \<Rightarrow> string \<Rightarrow> string \<Rightarrow> entry list \<Rightarrow> string option \<times> entry list \<times> nat list" where
  "interactive_strategy b doi_clean filename dir0 =
     (if \<not> starts b then (None, dir0, [])
      else if \<not> loads b (doi_url doi_clean) then (None, dir0, [])
      else (case download_clicked b of
              None \<Rightarrow> (None, dir0, [])
            | Some False \<Rightarrow> (None, dir0, [])
            | Some True \<Rightarrow> collect_download b filename dir0))"

text \<open>\<^verbatim>\<open>open(output_path, "wb")\<close> and the writes: the file is created or replaced.\<close>

definition write_file :: "string \<Rightarrow> int \<Rightarrow> string \<Rightarrow> entry list \<Rightarrow> entry list" where
  "write_file name t body dir =
     filter (\<lambda>g. file_name g \<noteq> name) dir @ [\<lparr>file_name = name, mtime = t, content = body\<rparr>]"

definition download_pdf_requests_fallback ::
  "'f py_runtime \<Rightarrow> string \<Rightarrow> string \<Rightarrow> 'z pipeline_world_scheme \<Rightarrow>
   string option \<times> 'z pipeline_world_scheme" where
  "download_pdf_requests_fallback R doi_clean filename w =
     (if str_contains ''10.3390'' doi_clean
      then (case get_metadata R doi_clean w of
              (Inl e, w1) \<Rightarrow> (None, w1)
            | (Inr metadata, w1) \<Rightarrow>
                (case metadata of
                   JObj m \<Rightarrow>
                     (case map_of m ''URL'' of
                        Some (JStr base_url) \<Rightarrow>
                          (case session_get (rstrip_slash base_url @ ''/pdf'') w1 of
                             (Inl e, w2) \<Rightarrow> (None, w2)
                           | (Inr resp, w2) \<Rightarrow>
                               (case raise_for_status resp of
                                  Inl e \<Rightarrow> (None, w2)
                                | Inr u \<Rightarrow>
                                    (Some filename,
                                     w2\<lparr>files := write_file filename (clock w2) (text_body resp)
                                                    (files w2)\<rparr>)))
                      | _ \<Rightarrow> (None, w1))
                 | _ \<Rightarrow> (None, w1)))
      else (None, w))"

definition pdf_filename :: "string \<Rightarrow> string" where
  "pdf_filename identifier = str_replace ''/'' ''_'' (clean_doi identifier) @ ''.pdf''"

definition download_pdf ::
  "'f py_runtime \<Rightarrow> string \<Rightarrow> 'z pipeline_world_scheme \<Rightarrow>
   string option \<times> 'z pipeline_world_scheme" where
  "download_pdf R identifier w =
     (case interactive_strategy (browser_of w (doi_url (clean_doi identifier)))
             (clean_doi identifier) (pdf_filename identifier) (files w) of
        (Some output_path, dir, sleeps) \<Rightarrow>
          (Some output_path, w\<lparr>sleep_log := sleep_log w @ sleeps, files := dir\<rparr>)
      | (None, dir, sleeps) \<Rightarrow>
          download_pdf_requests_fallback R (clean_doi identifier) (pdf_filename identifier)
            (w\<lparr>sleep_log := sleep_log w @ sleeps, files := dir\<rparr>))"

section \<open>process_papers and save_results\<close>

record paper =
  paper_doi :: string
  paper_title :: string

definition first_paper :: paper where
  "first_paper =
     \<lparr>paper_doi = ''https://doi.org/10.3390/cryst9110586'',
      paper_title = ''Effect of ECAP on the Microstructure and Mechanical Properties of a Rolled Mg-2Y-0.6Nd-0.6Zr Magnesium Alloy''\<rparr>"

definition second_paper :: paper where
  "second_paper =
     \<lparr>paper_doi = ''https://doi.org/10.3390/met14111217'',
      paper_title = ''Investigation of Mechanical Properties and Microstructural Evolution in Pure Copper with Dual Heterostructures Produced by Surface Mechanical Attrition Treatment''\<rparr>"

definition PAPERS :: "paper list" where
  "PAPERS = [first_paper, second_paper]"

text \<open>
  The body of the \<^verbatim>\<open>try\<close> in the loop of \<^verbatim>\<open>process_papers\<close>, for one paper: an exception
  (\<open>Inl\<close>), the \<^verbatim>\<open>continue\<close> after a failed download (\<open>Inr None\<close>), or the extracted data.
\<close>

definition process_paper ::
  "'f py_runtime \<Rightarrow> paper \<Rightarrow> 'z pipeline_world_scheme \<Rightarrow>
   (error + 'f ExtractedData option) \<times> 'z pipeline_world_scheme" where
  "process_paper R p w =
     (case get_metadata R (paper_doi p) w of
        (Inl e, w1) \<Rightarrow> (Inl e, w1)
      | (Inr metadata, w1) \<Rightarrow>
     (case extract_paper_info R metadata of
        Inl e \<Rightarrow> (Inl e, w1)
      | Inr extracted_info \<Rightarrow>
     (case make_paper_metadata R extracted_info of
        Inl e \<Rightarrow> (Inl e, w1)
      | Inr pm \<Rightarrow>
     (case download_pdf R (paper_doi p) w1 of
        (None, w2) \<Rightarrow> (Inr None, w2)
      | (Some pdf_path, w2) \<Rightarrow>
     (case extract_from_paper R pdf_path pm w2 of
        (Inl e, w3) \<Rightarrow> (Inl e, w3)
      | (Inr extracted_data, w3) \<Rightarrow> (Inr (Some extracted_data), w3))))))"

text \<open>
  The loop: \<^verbatim>\<open>except Exception: ... continue\<close> and the \<^verbatim>\<open>continue\<close> of a failed download both
  go on with the next paper and leave \<^verbatim>\<open>results\<close> as it is.
\<close>

fun process_loop ::
  "'f py_runtime \<Rightarrow> paper list \<Rightarrow> 'f ExtractedData list \<Rightarrow> 'z pipeline_world_scheme \<Rightarrow>
   'f ExtractedData list \<times> 'z pipeline_world_scheme" where
  "process_loop R [] results w = (results, w)"
| "process_loop R (p # ps) results w =
     (case process_paper R p w of
        (Inr (Some extracted_data), w') \<Rightarrow> process_loop R ps (results @ [extracted_data]) w'
      | (Inr None, w') \<Rightarrow> process_loop R ps results w'
      | (Inl e, w') \<Rightarrow> process_loop R ps results w')"

definition process_papers ::
  "'f py_runtime \<Rightarrow> 'z pipeline_world_scheme \<Rightarrow>
   'f ExtractedData list \<times> 'z pipeline_world_scheme" where
  "process_papers R w = process_loop R PAPERS [] w"

record 'f UnifiedResults =
  extraction_date :: string
  papers_processed :: int
  total_properties_extracted :: int
  data :: "'f ExtractedData list"

text \<open>The built-in \<^verbatim>\<open>sum\<close>: the numbers are added from the left, starting at 0.\<close>

definition py_sum :: "int list \<Rightarrow> int" where
  "py_sum ns = foldl (+) 0 ns"

text \<open>
  \<^verbatim>\<open>save_results\<close>: the \<^verbatim>\<open>UnifiedResults\<close> it constructs, which is what it writes to the output
  file. The first argument is the clock reading that becomes \<^verbatim>\<open>extraction_date\<close>.
\<close>

definition save_results :: "string \<Rightarrow> 'f ExtractedData list \<Rightarrow> 'f UnifiedResults" where
  "save_results date results =
     (let total_properties = py_sum (map (\<lambda>r. int (length (mechanical_properties r))) results)
      in \<lparr>extraction_date = date,
          papers_processed = int (length results),
          total_properties_extracted = total_properties,
          data = results\<rparr>)"

section \<open>Example inputs of the pipeline\<close>

text \<open>
  A directory that holds the PDF of an earlier paper, and a browser session in which a
  download button is clicked and nothing is downloaded: the directory stays as it was.
\<close>

definition stale_directory :: "entry list" where
  "stale_directory =
     [\<lparr>file_name = ''10.3390_cryst9110586.pdf'', mtime = 100, content = ''ECAP paper''\<rparr>,
      \<lparr>file_name = ''notes.txt'', mtime = 200, content = ''notes''\<rparr>]"

definition idle_browser :: browser where
  "idle_browser =
     \<lparr>starts = True, loads = (\<lambda>url. True), dropdown_pdf_clicked = False,
      button_clicked = (\<lambda>s. s = ''//a[contains(text(), 'Download PDF')]''),
      current_url = ''https://www.mdpi.com/2075-4701/14/11/1217'',
      directory_after = (\<lambda>t dir. dir)\<rparr>"

text \<open>
  A world in which the catalog answers every request with status 404, the reasoning
  service fails and no browser starts.
\<close>

definition offline_world :: pipeline_world where
  "offline_world =
     \<lparr>http_service = (\<lambda>url n. Inr \<lparr>status_code = 404, text_body = []\<rparr>),
      request_log = [], sleep_log = [],
      chat_service = (\<lambda>t x n. Inl ServiceError), chat_log = [],
      pdf_pages = (\<lambda>p. Inl OSError), now = ''2025-01-01T00:00:00'',
      files = [],
      browser_of = (\<lambda>url. \<lparr>starts = False, loads = (\<lambda>u. False), dropdown_pdf_clicked = False,
                              button_clicked = (\<lambda>s. False), current_url = [],
                              directory_after = (\<lambda>t dir. dir)\<rparr>),
      clock = 0\<rparr>"

text \<open>The offline world with that directory and that browser session for every URL.\<close>

definition stale_world :: pipeline_world where
  "stale_world = offline_world\<lparr>files := stale_directory, browser_of := (\<lambda>url. idle_browser)\<rparr>"

section \<open>Properties of get_metadata\<close>

lemma str_replace_prefix:
  "old \<noteq> [] \<Longrightarrow> str_replace old new (old @ s) = new @ str_replace old new s"
  by (subst str_replace.simps) simp

lemma clean_doi_resolver_prefix: "clean_doi (''https://doi.org/'' @ d) = clean_doi d"
  unfolding clean_doi_def by (subst str_replace_prefix) simp_all

text \<open>
  Claim C6. The resolver-prefixed form of an identifier and its bare form are normalised to
  the same key, give the same request URL, and \<open>get_metadata\<close> behaves the same on both: in
  any world it returns the same result (metadata or failure) and leaves the same world
  (the same requests logged).
\<close>

theorem get_metadata_prefixed_eq_bare:
  "clean_doi (''https://doi.org/'' @ d) = clean_doi d
   \<and> metadata_url (''https://doi.org/'' @ d) = metadata_url d
   \<and> get_metadata R (''https://doi.org/'' @ d) w = get_metadata R d w"
proof -
  have key: "clean_doi (''https://doi.org/'' @ d) = clean_doi d"
    by (rule clean_doi_resolver_prefix)
  have url: "metadata_url (''https://doi.org/'' @ d) = metadata_url d"
    by (simp only: metadata_url_def key)
  have attempt: "get_metadata_attempt R (''https://doi.org/'' @ d) = get_metadata_attempt R d"
    by (rule ext) (simp only: get_metadata_attempt_def url)
  have "get_metadata R (''https://doi.org/'' @ d) w = get_metadata R d w"
    by (simp only: get_metadata_def attempt)
  with key url show ?thesis by blast
qed

section \<open>Properties of the retry decorator\<close>

lemma retry_from_success:
  "f w = (Inr v, w') \<Longrightarrow> retry_from stop_after attempt f w = (Inr v, w')"
  by (subst retry_from.simps) simp

lemma retry_from_last:
  "f w = (Inl e, w') \<Longrightarrow> stop_after \<le> attempt \<Longrightarrow>
   retry_from stop_after attempt f w = (Inl (RetryError e), w')"
  by (subst retry_from.simps) simp

lemma retry_from_again:
  "f w = (Inl e, w') \<Longrightarrow> attempt < stop_after \<Longrightarrow>
   retry_from stop_after attempt f w =
   retry_from stop_after (Suc attempt) f (sleep (wait_exponential 1 4 10 attempt) w')"
  by (subst retry_from.simps) simp

lemma wait_first: "wait_exponential 1 4 10 1 = 4"
  by (simp add: wait_exponential_def)

lemma wait_second: "wait_exponential 1 4 10 (Suc 1) = 4"
  by (simp add: wait_exponential_def)

text \<open>Three failed attempts: the function is called three times, with two sleeps of 4 seconds.\<close>

lemma retry_three_failures:
  assumes "f w = (Inl e1, w1)"
    and "f (sleep 4 w1) = (Inl e2, w2)"
    and "f (sleep 4 w2) = (Inl e3, w3)"
  shows "retry f w = (Inl (RetryError e3), w3)"
proof -
  have "retry f w = retry_from 3 (Suc 1) f (sleep 4 w1)"
    unfolding retry_def
    by (rule trans [OF retry_from_again [where e = e1 and w' = w1]])
       (simp_all add: assms(1) wait_exponential_def)
  also have "\<dots> = retry_from 3 (Suc (Suc 1)) f (sleep 4 w2)"
    by (rule trans [OF retry_from_again [where e = e2 and w' = w2]])
       (simp_all add: assms(2) wait_exponential_def)
  also have "\<dots> = (Inl (RetryError e3), w3)"
    by (rule retry_from_last [where e = e3]) (simp_all add: assms(3))
  finally show ?thesis .
qed

text \<open>One attempt against a catalog that answers with status 404.\<close>

lemma get_metadata_attempt_404:
  assumes "http_service w (metadata_url d) (length (request_log w)) = Inr r"
    and "status_code r = 404"
  shows "get_metadata_attempt R d w =
         (Inl (HTTPError 404), w\<lparr>request_log := request_log w @ [metadata_url d]\<rparr>)"
  using assms by (simp add: get_metadata_attempt_def session_get_def raise_for_status_def)

text \<open>Three attempts against a catalog that keeps answering 404.\<close>

lemma get_metadata_persistent_404:
  assumes "\<forall>n. \<exists>r. http_service w (metadata_url d) n = Inr r \<and> status_code r = 404"
  shows "get_metadata R d w =
         (Inl (RetryError (HTTPError 404)),
          w\<lparr>request_log := request_log w @ [metadata_url d, metadata_url d, metadata_url d],
            sleep_log := sleep_log w @ [4, 4]\<rparr>)"
proof -
  let ?u = "metadata_url d"
  have step: "get_metadata_attempt R d v =
              (Inl (HTTPError 404), v\<lparr>request_log := request_log v @ [?u]\<rparr>)"
    if "http_service v = http_service w" for v :: "'a world_scheme"
  proof -
    from assms obtain r where
      "http_service w ?u (length (request_log v)) = Inr r \<and> status_code r = 404"
      by blast
    then have "http_service v ?u (length (request_log v)) = Inr r" and "status_code r = 404"
      by (simp_all add: that)
    then show ?thesis by (rule get_metadata_attempt_404)
  qed
  let ?w1 = "w\<lparr>request_log := request_log w @ [?u]\<rparr>"
  let ?w2 = "(sleep 4 ?w1)\<lparr>request_log := request_log (sleep 4 ?w1) @ [?u]\<rparr>"
  let ?w3 = "(sleep 4 ?w2)\<lparr>request_log := request_log (sleep 4 ?w2) @ [?u]\<rparr>"
  have a1: "get_metadata_attempt R d w = (Inl (HTTPError 404), ?w1)"
    by (rule step) simp
  have a2: "get_metadata_attempt R d (sleep 4 ?w1) = (Inl (HTTPError 404), ?w2)"
    by (rule step) (simp add: sleep_def)
  have a3: "get_metadata_attempt R d (sleep 4 ?w2) = (Inl (HTTPError 404), ?w3)"
    by (rule step) (simp add: sleep_def)
  have "get_metadata R d w = (Inl (RetryError (HTTPError 404)), ?w3)"
    unfolding get_metadata_def by (rule retry_three_failures [OF a1 a2 a3])
  moreover have "?w3 = w\<lparr>request_log := request_log w @ [?u, ?u, ?u],
                          sleep_log := sleep_log w @ [4, 4]\<rparr>"
    by (simp add: sleep_def)
  ultimately show ?thesis by simp
qed

text \<open>
  Claim C3, as the code has it. The decorator does not look at the kind of failure: a 404
  answer is a failed attempt like any other and is retried. When the catalog answers 404 to
  every request for the work, \<open>get_metadata\<close> sends the request three times, sleeps 4 seconds
  after the first and after the second answer, and then fails with \<open>RetryError\<close>.
\<close>

theorem get_metadata_retries_404:
  assumes "\<forall>n. \<exists>r. http_service w (metadata_url d) n = Inr r \<and> status_code r = 404"
  shows "get_metadata R d w =
         (Inl (RetryError (HTTPError 404)),
          w\<lparr>request_log := request_log w @ [metadata_url d, metadata_url d, metadata_url d],
            sleep_log := sleep_log w @ [4, 4]\<rparr>)"
  using assms by (rule get_metadata_persistent_404)

theorem get_metadata_retries_404_witness:
  "(\<forall>n. \<exists>r. http_service (constant_world 404 ''Not Found'') (metadata_url ''10.1000/none'') n = Inr r
            \<and> status_code r = 404)
   \<and> fst (get_metadata example_runtime ''10.1000/none'' (constant_world 404 ''Not Found''))
       = Inl (RetryError (HTTPError 404))
   \<and> request_log (snd (get_metadata example_runtime ''10.1000/none'' (constant_world 404 ''Not Found'')))
       = [metadata_url ''10.1000/none'', metadata_url ''10.1000/none'', metadata_url ''10.1000/none'']
   \<and> sleep_log (snd (get_metadata example_runtime ''10.1000/none'' (constant_world 404 ''Not Found'')))
       = [4, 4]"
proof -
  have h: "\<forall>n. \<exists>r. http_service (constant_world 404 ''Not Found'') (metadata_url ''10.1000/none'') n
                  = Inr r \<and> status_code r = 404"
    by (simp add: constant_world_def)
  show ?thesis
    using h get_metadata_retries_404 [OF h, of example_runtime]
    by (simp add: constant_world_def)
qed

text \<open>
  Claim C3, as stated, fails: against a catalog that answers 404 the operation does not fail
  at the first answer. It makes three requests and sleeps twice before it fails.
\<close>

theorem get_metadata_404_not_immediate:
  "length (request_log (snd (get_metadata example_runtime ''10.3390/cryst9110586''
      (constant_world 404 [])))) = 3
   \<and> sleep_log (snd (get_metadata example_runtime ''10.3390/cryst9110586''
      (constant_world 404 []))) = [4, 4]
   \<and> fst (get_metadata example_runtime ''10.3390/cryst9110586'' (constant_world 404 []))
      = Inl (RetryError (HTTPError 404))"
  by (simp add: get_metadata_def retry_def retry_from.simps get_metadata_attempt_def
      session_get_def constant_world_def raise_for_status_def sleep_def wait_exponential_def)

section \<open>Properties of extract_paper_info\<close>

lemma first_or_empty_missing:
  "map_of metadata k = None \<Longrightarrow> first_or_empty R metadata k = Inr (JStr [])"
  by (simp add: first_or_empty_def dict_get_def)

lemma is_list_cases: "is_list v \<Longrightarrow> \<exists>xs. v = JArr xs"
  by (cases v) simp_all

lemma first_or_empty_shaped:
  assumes "case map_of metadata k of None \<Rightarrow> True | Some v \<Rightarrow> is_list v"
  shows "\<exists>x. first_or_empty R metadata k = Inr x"
proof (cases "map_of metadata k")
  case None
  then show ?thesis by (simp add: first_or_empty_missing)
next
  case (Some v)
  with assms obtain xs where "v = JArr xs" using is_list_cases by fastforce
  with Some show ?thesis
    by (cases xs) (simp_all add: first_or_empty_def dict_get_def)
qed

lemma author_name_dict: "is_dict a \<Longrightarrow> \<exists>name. author_name R a = Inr name"
  by (cases a) (simp_all add: author_name_def)

lemma collect_authors_dicts:
  "list_all is_dict as \<Longrightarrow> \<exists>names. collect_authors R as acc = Inr names"
proof (induction as arbitrary: acc)
  case Nil
  then show ?case by simp
next
  case (Cons a as)
  then obtain name where "author_name R a = Inr name"
    using author_name_dict by fastforce
  with Cons show ?case by simp
qed

lemma authors_shaped_returns:
  assumes "case map_of metadata ''author'' of None \<Rightarrow> True | Some v \<Rightarrow> authors_shaped v"
  shows "\<exists>names. (case map_of metadata ''author'' of
                    None \<Rightarrow> Inr []
                  | Some v \<Rightarrow>
                      (case py_iter v of Inl e \<Rightarrow> Inl e | Inr as \<Rightarrow> collect_authors R as []))
                 = Inr names"
proof (cases "map_of metadata ''author''")
  case None
  then show ?thesis by simp
next
  case (Some v)
  with assms have "authors_shaped v" by simp
  then obtain xs where v: "v = JArr xs" and "list_all is_dict xs"
    by (cases v) simp_all
  then obtain names where "collect_authors R xs [] = Inr names"
    using collect_authors_dicts by blast
  with Some v show ?thesis by simp
qed

lemma dates_shaped_returns:
  assumes "case map_of metadata ''published-print'' of None \<Rightarrow> True | Some v \<Rightarrow> dates_shaped v"
  shows "\<exists>dp x. py_get (dict_get metadata ''published-print'' (JObj [])) ''date-parts''
                  (JArr [JArr [JNull]]) = Inr dp \<and> py_index0 dp = Inr x"
proof (cases "map_of metadata ''published-print''")
  case None
  then show ?thesis by (simp add: dict_get_def)
next
  case (Some v)
  with assms have s: "dates_shaped v" by simp
  then obtain d where v: "v = JObj d" by (cases v) simp_all
  show ?thesis
  proof (cases "map_of d ''date-parts''")
    case None
    with Some v show ?thesis by (simp add: dict_get_def)
  next
    case inner: (Some dp)
    with s v have "is_nonempty_list dp" by simp
    then obtain x xs where "dp = JArr (x # xs)"
      by (cases dp rule: is_nonempty_list.cases) simp_all
    with Some v inner show ?thesis by (simp add: dict_get_def)
  qed
qed

lemma extract_paper_info_dict_returns:
  assumes "catalog_shaped metadata"
  shows "\<exists>info. extract_paper_info_dict R metadata = Inr info"
proof -
  obtain names where a: "(case map_of metadata ''author'' of
                    None \<Rightarrow> Inr []
                  | Some v \<Rightarrow>
                      (case py_iter v of Inl e \<Rightarrow> Inl e | Inr as \<Rightarrow> collect_authors R as []))
                 = Inr names"
    using assms authors_shaped_returns [of metadata R] by (auto simp: catalog_shaped_def)
  obtain t where t: "first_or_empty R metadata ''title'' = Inr t"
    using assms first_or_empty_shaped [of metadata "''title''" R]
    by (auto simp: catalog_shaped_def)
  obtain j where j: "first_or_empty R metadata ''container-title'' = Inr j"
    using assms first_or_empty_shaped [of metadata "''container-title''" R]
    by (auto simp: catalog_shaped_def)
  obtain dp x where d: "py_get (dict_get metadata ''published-print'' (JObj [])) ''date-parts''
                  (JArr [JArr [JNull]]) = Inr dp" and x: "py_index0 dp = Inr x"
    using assms dates_shaped_returns [of metadata] by (auto simp: catalog_shaped_def)
  show ?thesis
    unfolding extract_paper_info_dict_def by (simp add: a t j d x)
qed

lemma extract_paper_info_dict_defaults:
  assumes "extract_paper_info_dict R metadata = Inr info"
  shows "(map_of metadata ''author'' = None \<longrightarrow> info_authors info = [])
       \<and> (map_of metadata ''title'' = None \<longrightarrow> info_title info = JStr [])
       \<and> (map_of metadata ''container-title'' = None \<longrightarrow> info_journal info = JStr [])"
  using assms
  by (auto simp: extract_paper_info_dict_def first_or_empty_missing split: sum.splits)

text \<open>
  Claim C8, as the code has it. Whenever \<open>extract_paper_info\<close> returns, each of the keys
  \<open>author\<close>, \<open>title\<close> and \<open>container-title\<close> that is missing from the document has its
  default in the result: no authors, the empty title, the empty journal. It returns, and
  raises nothing, on every document whose present fields have the catalog's shape; a
  missing key never makes it raise.
\<close>

theorem extract_paper_info_missing_keys:
  "(\<forall>info. extract_paper_info R (JObj metadata) = Inr info \<longrightarrow>
       (map_of metadata ''author'' = None \<longrightarrow> info_authors info = [])
     \<and> (map_of metadata ''title'' = None \<longrightarrow> info_title info = JStr [])
     \<and> (map_of metadata ''container-title'' = None \<longrightarrow> info_journal info = JStr []))
   \<and> (catalog_shaped metadata \<longrightarrow> (\<exists>info. extract_paper_info R (JObj metadata) = Inr info))"
  using extract_paper_info_dict_defaults [of R metadata]
    extract_paper_info_dict_returns [of metadata R]
  by simp

theorem extract_paper_info_missing_keys_witness:
  "catalog_shaped [(''DOI'', JStr ''10.3390/cryst9110586'') :: string \<times> unit json]
   \<and> map_of [(''DOI'', JStr ''10.3390/cryst9110586'') :: string \<times> unit json] ''author'' = None
   \<and> map_of [(''DOI'', JStr ''10.3390/cryst9110586'') :: string \<times> unit json] ''title'' = None
   \<and> map_of [(''DOI'', JStr ''10.3390/cryst9110586'') :: string \<times> unit json] ''container-title''
       = None
   \<and> (\<exists>info. extract_paper_info example_runtime (JObj [(''DOI'', JStr ''10.3390/cryst9110586'')])
         = Inr info
       \<and> info_authors info = [] \<and> info_title info = JStr [] \<and> info_journal info = JStr [])"
proof -
  let ?m = "[(''DOI'', JStr ''10.3390/cryst9110586'') :: string \<times> unit json]"
  have shaped: "catalog_shaped ?m"
    by (simp add: catalog_shaped_def)
  have missing: "map_of ?m ''author'' = None" "map_of ?m ''title'' = None"
    "map_of ?m ''container-title'' = None"
    by simp_all
  from extract_paper_info_missing_keys [of example_runtime ?m] shaped missing
  have "\<exists>info. extract_paper_info example_runtime (JObj ?m) = Inr info
       \<and> info_authors info = [] \<and> info_title info = JStr [] \<and> info_journal info = JStr []"
    by blast
  with shaped missing show ?thesis by blast
qed

text \<open>
  Claim C8, as stated, fails: in the document below \<open>author\<close>, \<open>title\<close> and
  \<open>container-title\<close> are all missing, and \<open>extract_paper_info\<close> raises \<open>IndexError\<close>, because the
  print-publication date holds an empty \<open>date-parts\<close> list.
\<close>

theorem extract_paper_info_raises_on_empty_date_parts:
  "map_of [(''published-print'', JObj [(''date-parts'', JArr [])]) :: string \<times> unit json]
      ''author'' = None
   \<and> map_of [(''published-print'', JObj [(''date-parts'', JArr [])]) :: string \<times> unit json]
      ''title'' = None
   \<and> map_of [(''published-print'', JObj [(''date-parts'', JArr [])]) :: string \<times> unit json]
      ''container-title'' = None
   \<and> extract_paper_info example_runtime
        (JObj [(''published-print'', JObj [(''date-parts'', JArr [])])]) = Inl IndexError"
  by (simp add: extract_paper_info_dict_def first_or_empty_def dict_get_def)

section \<open>Properties of the publication date\<close>

lemma publication_date_without_print:
  assumes "map_of metadata ''published-print'' = None"
    and "extract_paper_info_dict R metadata = Inr info"
  shows "info_publication_date info = JArr [JNull]"
  using assms
  by (auto simp: extract_paper_info_dict_def dict_get_def split: sum.splits)

lemma make_paper_metadata_publication_date:
  "make_paper_metadata R info = Inr pm \<Longrightarrow>
   publication_date_arg R (info_publication_date info) = Inr (publication_date pm)"
  by (auto simp: make_paper_metadata_def split: sum.splits)

text \<open>
  What the code does when the print-publication date is there and its first \<open>date-parts\<close>
  entry starts with an integer: the publication date is that integer, the year, in decimal.
\<close>

lemma publication_date_is_first_component:
  assumes "map_of metadata ''published-print'' = Some (JObj d)"
    and "map_of d ''date-parts'' = Some (JArr (JArr (JInt y # rest) # others))"
    and "extract_paper_info_dict R metadata = Inr info"
  shows "publication_date_arg R (info_publication_date info) = Inr (Some (str_of_int y))"
proof -
  from assms have "info_publication_date info = JArr (JInt y # rest)"
    by (auto simp: extract_paper_info_dict_def dict_get_def split: sum.splits)
  then show ?thesis by (simp add: publication_date_arg_def)
qed

text \<open>
  Claim C7, on a document with no print-publication date. The default \<open>[[None]]\<close> of
  \<open>extract_paper_info\<close> makes \<open>publication_date\<close> the list \<open>[None]\<close>, which is not empty and
  therefore true in the condition of \<open>process_papers\<close>: the publication date of the
  constructed \<open>PaperMetadata\<close> is the four-letter string \<open>None\<close>, not an absent value.
\<close>

theorem publication_date_missing_print_is_text_None:
  assumes "map_of metadata ''published-print'' = None"
    and "extract_paper_info R (JObj metadata) = Inr info"
  shows "info_publication_date info = JArr [JNull]
       \<and> publication_date_arg R (info_publication_date info) = Inr (Some ''None'')
       \<and> (\<forall>pm. make_paper_metadata R info = Inr pm \<longrightarrow> publication_date pm = Some ''None'')"
proof -
  from assms have pd: "info_publication_date info = JArr [JNull]"
    by (simp add: publication_date_without_print)
  then have arg: "publication_date_arg R (info_publication_date info) = Inr (Some ''None'')"
    by (simp add: publication_date_arg_def)
  have "publication_date pm = Some ''None''" if "make_paper_metadata R info = Inr pm" for pm
    using make_paper_metadata_publication_date [OF that] arg by simp
  with pd arg show ?thesis by blast
qed

theorem publication_date_missing_print_is_text_None_witness:
  "map_of [(''DOI'', JStr ''10.3390/cryst9110586''), (''title'', JArr [JStr ''Effect of ECAP''])]
     ''published-print'' = (None :: unit json option)
   \<and> extract_paper_info example_runtime example_message =
       Inr \<lparr>info_doi = JStr ''10.3390/cryst9110586'', info_title = JStr ''Effect of ECAP'',
            info_authors = [], info_publication_date = JArr [JNull], info_journal = JStr [],
            info_publisher = JStr [], info_abstract = JStr []\<rparr>
   \<and> make_paper_metadata example_runtime
        \<lparr>info_doi = JStr ''10.3390/cryst9110586'', info_title = JStr ''Effect of ECAP'',
         info_authors = [], info_publication_date = JArr [JNull], info_journal = JStr [],
         info_publisher = JStr [], info_abstract = JStr []\<rparr> =
       Inr \<lparr>doi = ''10.3390/cryst9110586'', title = ''Effect of ECAP'', authors = [],
            publication_date = Some ''None'', journal = Some []\<rparr>"
proof -
  let ?m = "[(''DOI'', JStr ''10.3390/cryst9110586''),
             (''title'', JArr [JStr ''Effect of ECAP''])] :: (string \<times> unit json) list"
  let ?info = "\<lparr>info_doi = JStr ''10.3390/cryst9110586'', info_title = JStr ''Effect of ECAP'',
         info_authors = [], info_publication_date = JArr [JNull], info_journal = JStr [],
         info_publisher = JStr [], info_abstract = JStr []\<rparr> :: unit paper_info"
  have h1: "map_of ?m ''published-print'' = None"
    by simp
  have h2: "extract_paper_info example_runtime (JObj ?m) = Inr ?info"
    by (simp add: extract_paper_info_dict_def first_or_empty_def dict_get_def)
  obtain pm where pm: "make_paper_metadata example_runtime ?info = Inr pm"
    and fields: "doi pm = ''10.3390/cryst9110586''" "title pm = ''Effect of ECAP''"
      "authors pm = []" "journal pm = Some []"
    by (simp add: make_paper_metadata_def publication_date_arg_def validate_str_def
        validate_optional_str_def)
  from publication_date_missing_print_is_text_None [OF h1 h2] pm
  have "publication_date pm = Some ''None''" by blast
  with fields have "pm = \<lparr>doi = ''10.3390/cryst9110586'', title = ''Effect of ECAP'',
      authors = [], publication_date = Some ''None'', journal = Some []\<rparr>"
    by simp
  with pm h1 h2 show ?thesis by (simp add: example_message_def)
qed

section \<open>Properties of the response parsing\<close>

lemma first_list_finds:
  assumes "list_all (\<lambda>u. \<not> is_list u) before" and "is_list v"
  shows "first_list (before @ v # after) = Some v"
  using assms by (induction before) simp_all

lemma first_list_none: "list_all (\<lambda>u. \<not> is_list u) vs \<Longrightarrow> first_list vs = None"
  by (induction vs) simp_all

lemma response_records_no_container:
  "\<not> is_dict v \<Longrightarrow> \<not> is_list v \<Longrightarrow> response_records v = JArr []"
  by (cases v) (simp_all add: response_records_def)

text \<open>
  The shapes in the order the code tries them. A bare array is returned as it is; an object
  that holds an array under \<open>properties\<close> gives that array; an object without \<open>properties\<close>
  that holds one under \<open>data\<close> gives that array; an object with neither key gives its first
  array-valued field, in the order of the fields, and the empty sequence when no field is
  an array; a document that is neither an object nor an array gives the empty sequence.
\<close>

lemma response_records_shapes:
  "response_records (JArr xs) = JArr xs
   \<and> (map_of d ''properties'' = Some (JArr xs) \<longrightarrow> response_records (JObj d) = JArr xs)
   \<and> (map_of d ''properties'' = None \<and> map_of d ''data'' = Some (JArr xs)
        \<longrightarrow> response_records (JObj d) = JArr xs)
   \<and> (map_of d ''properties'' = None \<and> map_of d ''data'' = None
        \<and> map snd d = before @ JArr xs # after \<and> list_all (\<lambda>u. \<not> is_list u) before
        \<longrightarrow> response_records (JObj d) = JArr xs)
   \<and> (map_of d ''properties'' = None \<and> map_of d ''data'' = None
        \<and> list_all (\<lambda>u. \<not> is_list u) (map snd d)
        \<longrightarrow> response_records (JObj d) = JArr [])
   \<and> (\<not> is_dict v \<and> \<not> is_list v \<longrightarrow> response_records v = JArr [])"
proof -
  have bare: "response_records (JArr xs) = JArr xs"
    by (simp add: response_records_def)
  have props: "response_records (JObj d) = JArr xs" if "map_of d ''properties'' = Some (JArr xs)"
    using that by (simp add: response_records_def)
  have data: "response_records (JObj d) = JArr xs"
    if "map_of d ''properties'' = None" "map_of d ''data'' = Some (JArr xs)"
    using that by (simp add: response_records_def)
  have first: "response_records (JObj d) = JArr xs"
    if "map_of d ''properties'' = None" "map_of d ''data'' = None"
      "map snd d = before @ JArr xs # after" "list_all (\<lambda>u. \<not> is_list u) before"
  proof -
    have "first_list (map snd d) = Some (JArr xs)"
      using that(3,4) first_list_finds [of before "JArr xs" after] by simp
    with that(1,2) show ?thesis by (simp add: response_records_def)
  qed
  have none: "response_records (JObj d) = JArr []"
    if "map_of d ''properties'' = None" "map_of d ''data'' = None"
      "list_all (\<lambda>u. \<not> is_list u) (map snd d)"
    using that first_list_none [of "map snd d"] by (simp add: response_records_def)
  from bare props data first none response_records_no_container [of v]
  show ?thesis by blast
qed

lemma response_records_wrapped:
  assumes "map_of d ''properties'' = Some v
           \<or> (map_of d ''properties'' = None \<and> map_of d ''data'' = Some v)"
  shows "response_records (JObj d) = v"
  using assms by (auto simp: response_records_def)

lemma model_dump_title: "py_str R (dict_get (model_dump pm) ''title'' dflt) = title pm"
  by (simp add: model_dump_def dict_get_def)

section \<open>Properties of extract_properties\<close>

lemma extract_properties_attempt_returns:
  "\<exists>v. extract_properties_attempt R text paper_info w =
        (Inr v, w\<lparr>chat_log := chat_log w @
            [(py_str R (dict_get paper_info ''title'' (JStr ''Unknown'')), take 8000 text)]\<rparr>)"
  by (simp add: extract_properties_attempt_def Let_def split: sum.splits option.splits)

lemma extract_properties_attempt_failed_call:
  "chat_service w (py_str R (dict_get paper_info ''title'' (JStr ''Unknown''))) (take 8000 text)
     (length (chat_log w)) = Inl e \<Longrightarrow>
   fst (extract_properties_attempt R text paper_info w) = Inr (JArr [])"
  by (simp add: extract_properties_attempt_def Let_def)

lemma extract_properties_is_attempt:
  "extract_properties R paper_text paper_info w = extract_properties_attempt R paper_text paper_info w"
proof -
  obtain v where a: "extract_properties_attempt R paper_text paper_info w =
        (Inr v, w\<lparr>chat_log := chat_log w @
            [(py_str R (dict_get paper_info ''title'' (JStr ''Unknown'')), take 8000 paper_text)]\<rparr>)"
    using extract_properties_attempt_returns by blast
  show ?thesis
    unfolding extract_properties_def retry_def
    by (subst retry_from.simps) (simp add: a)
qed

text \<open>
  Claim C4, on the code. The body of \<open>extract_properties\<close> catches every exception and
  returns the empty list, so the retry decorator never sees a failed attempt: whatever the
  service does, \<open>extract_properties\<close> is one attempt, with one call of the service and no
  sleep, and a failed call gives the empty list at once.
\<close>

theorem extract_properties_single_attempt:
  "extract_properties R text paper_info w = extract_properties_attempt R text paper_info w
   \<and> chat_log (snd (extract_properties R text paper_info w)) =
       chat_log w @ [(py_str R (dict_get paper_info ''title'' (JStr ''Unknown'')), take 8000 text)]
   \<and> sleep_log (snd (extract_properties R text paper_info w)) = sleep_log w
   \<and> (\<forall>e. chat_service w (py_str R (dict_get paper_info ''title'' (JStr ''Unknown'')))
             (take 8000 text) (length (chat_log w)) = Inl e
          \<longrightarrow> fst (extract_properties R text paper_info w) = Inr (JArr []))"
proof -
  obtain v where a: "extract_properties_attempt R text paper_info w =
        (Inr v, w\<lparr>chat_log := chat_log w @
            [(py_str R (dict_get paper_info ''title'' (JStr ''Unknown'')), take 8000 text)]\<rparr>)"
    using extract_properties_attempt_returns by blast
  have eq: "extract_properties R text paper_info w = extract_properties_attempt R text paper_info w"
    unfolding extract_properties_def retry_def
    by (subst retry_from.simps) (simp add: a)
  show ?thesis
    using extract_properties_attempt_failed_call [of w R paper_info "text"]
    by (simp add: eq a)
qed

theorem extract_properties_single_attempt_witness:
  "chat_service flaky_llm_world ''Effect of ECAP'' ''Table 1'' 0 = Inl ServiceError
   \<and> chat_service flaky_llm_world ''Effect of ECAP'' ''Table 1'' 1 = Inr ''[]''
   \<and> fst (extract_properties example_runtime ''Table 1'' [(''title'', JStr ''Effect of ECAP'')]
        flaky_llm_world) = Inr (JArr [])
   \<and> chat_log (snd (extract_properties example_runtime ''Table 1''
        [(''title'', JStr ''Effect of ECAP'')] flaky_llm_world)) = [(''Effect of ECAP'', ''Table 1'')]
   \<and> sleep_log (snd (extract_properties example_runtime ''Table 1''
        [(''title'', JStr ''Effect of ECAP'')] flaky_llm_world)) = []"
  using extract_properties_single_attempt
    [of example_runtime "''Table 1''" "[(''title'', JStr ''Effect of ECAP'')]" flaky_llm_world]
  by (simp add: flaky_llm_world_def dict_get_def extract_properties_attempt_def Let_def)

section \<open>A wrapped value that is not an array\<close>

text \<open>
  Claim C5, on the code. The value an object holds under \<open>properties\<close>, or under \<open>data\<close> when
  it has no \<open>properties\<close>, is returned as it is, whether it is an array or not: only the
  fallback over the fields tests for an array. So when the reply of the service is such an
  object, \<open>extract_properties\<close> returns that value, and when the value cannot be iterated
  (\<open>null\<close>, a number, a boolean) the loop of \<open>extract_from_paper\<close> raises a type error, where
  the claim has the empty sequence and no error.
\<close>

theorem wrapped_value_returned_unchecked:
  assumes "map_of d ''properties'' = Some v
           \<or> (map_of d ''properties'' = None \<and> map_of d ''data'' = Some v)"
    and "extract_text_from_pdf pdf_path w = Inr paper_text"
    and "chat_service w (title pm) (take 8000 paper_text) (length (chat_log w)) = Inr reply"
    and "json_loads R reply = Some (JObj d)"
  shows "response_records (JObj d) = v
       \<and> fst (extract_properties R paper_text (model_dump pm) w) = Inr v
       \<and> (py_iter v = Inl TypeError \<longrightarrow>
            fst (extract_from_paper R pdf_path pm w) = Inl TypeError)"
proof -
  have r: "response_records (JObj d) = v"
    using assms(1) by (rule response_records_wrapped)
  have attempt: "extract_properties_attempt R paper_text (model_dump pm) w =
      (Inr v, w\<lparr>chat_log := chat_log w @ [(title pm, take 8000 paper_text)]\<rparr>)"
    by (simp add: extract_properties_attempt_def Let_def model_dump_title assms(3,4) r)
  have props: "extract_properties R paper_text (model_dump pm) w =
      (Inr v, w\<lparr>chat_log := chat_log w @ [(title pm, take 8000 paper_text)]\<rparr>)"
    by (simp only: extract_properties_is_attempt attempt)
  have raises: "fst (extract_from_paper R pdf_path pm w) = Inl TypeError"
    if "py_iter v = Inl TypeError"
    by (simp add: extract_from_paper_def assms(2) props that)
  from r props raises show ?thesis
    by simp
qed

theorem wrapped_value_returned_unchecked_witness:
  "map_of [(''properties'', JNull :: unit json)] ''properties'' = Some JNull
   \<and> extract_text_from_pdf ''10.3390_cryst9110586.pdf'' null_properties_world
       = Inr (''Table 1'' @ [CHR 0x0A])
   \<and> chat_service null_properties_world (title example_paper_metadata)
       (take 8000 (''Table 1'' @ [CHR 0x0A])) (length (chat_log null_properties_world)) = Inr ''P''
   \<and> json_loads null_properties_runtime ''P'' = Some (JObj [(''properties'', JNull)])
   \<and> py_iter (JNull :: unit json) = Inl TypeError
   \<and> response_records (JObj [(''properties'', JNull :: unit json)]) = JNull
   \<and> response_records (JObj [(''properties'', JNull :: unit json)]) \<noteq> JArr []
   \<and> fst (extract_properties null_properties_runtime (''Table 1'' @ [CHR 0x0A])
        (model_dump example_paper_metadata) null_properties_world) = Inr JNull
   \<and> fst (extract_from_paper null_properties_runtime ''10.3390_cryst9110586.pdf''
        example_paper_metadata null_properties_world) = Inl TypeError"
proof -
  have h1: "map_of [(''properties'', JNull :: unit json)] ''properties'' = Some JNull
            \<or> (map_of [(''properties'', JNull :: unit json)] ''properties'' = None
                \<and> map_of [(''properties'', JNull :: unit json)] ''data'' = Some JNull)"
    by simp
  have h2: "extract_text_from_pdf ''10.3390_cryst9110586.pdf'' null_properties_world
       = Inr (''Table 1'' @ [CHR 0x0A])"
    by (simp add: extract_text_from_pdf_def null_properties_world_def)
  have h3: "chat_service null_properties_world (title example_paper_metadata)
       (take 8000 (''Table 1'' @ [CHR 0x0A])) (length (chat_log null_properties_world)) = Inr ''P''"
    by (simp add: null_properties_world_def)
  have h4: "json_loads null_properties_runtime ''P'' = Some (JObj [(''properties'', JNull)])"
    by (simp add: null_properties_runtime_def)
  from wrapped_value_returned_unchecked [OF h1 h2 h3 h4] h2 h3 h4 show ?thesis
    by simp
qed

section \<open>Properties of the record conversion\<close>

lemma dict_set_lookup: "map_of (dict_set d k v) k = Some v"
  by (induction d) simp_all

lemma strip_separator: "str_replace '','' [] ''1,234.5'' = ''1234.5''"
  by (simp add: str_replace.simps)

lemma convert_properties_append:
  "convert_properties R (ps @ qs) acc = convert_properties R qs (convert_properties R ps acc)"
  by (induction ps arbitrary: acc) (simp_all split: option.splits)

lemma convert_properties_drop:
  "convert_property R p = None \<Longrightarrow>
   convert_properties R (ps @ p # qs) acc = convert_properties R (ps @ qs) acc"
  by (simp add: convert_properties_append)

lemma convert_property_not_dict: "\<not> is_dict p \<Longrightarrow> convert_property R p = None"
  by (cases p) (simp_all add: convert_property_def clean_value_def)

lemma convert_property_bad_number:
  "map_of d ''value'' = Some (JStr s) \<Longrightarrow> float_of_str R (str_replace '','' [] s) = None \<Longrightarrow>
   convert_property R (JObj d) = None"
  by (simp add: convert_property_def clean_value_def dict_get_def)

lemma clean_value_keys:
  "clean_value R (JObj d) = Inr d' \<Longrightarrow> k \<noteq> ''value'' \<Longrightarrow> map_of d' k = map_of d k"
proof -
  have set_other: "map_of (dict_set c ''value'' v) k = map_of c k"
    if "k \<noteq> ''value''" for c :: "(string \<times> 'a json) list" and v
    using that by (induction c) auto
  assume "clean_value R (JObj d) = Inr d'" and "k \<noteq> ''value''"
  then show ?thesis
    by (auto simp: clean_value_def set_other split: json.splits option.splits)
qed

lemma clean_value_missing:
  "clean_value R (JObj d) = Inr d' \<Longrightarrow> map_of d ''value'' = None \<Longrightarrow> map_of d' ''value'' = None"
  by (auto simp: clean_value_def dict_get_def split: json.splits option.splits)

lemma init_missing_required:
  "map_of d k = None \<Longrightarrow> k \<in> {''material'', ''property_name'', ''value'', ''unit''} \<Longrightarrow>
   MechanicalProperty_init R d = Inl ValidationError \<or> (\<exists>e. MechanicalProperty_init R d = Inl e)"
  by (auto simp: MechanicalProperty_init_def required_field_def split: sum.splits)

lemma convert_property_missing_required:
  assumes "map_of d k = None" and "k \<in> {''material'', ''property_name'', ''value'', ''unit''}"
  shows "convert_property R (JObj d) = None"
proof (cases "clean_value R (JObj d)")
  case (Inl e)
  then show ?thesis by (simp add: convert_property_def)
next
  case (Inr d')
  have "map_of d' k = None"
  proof (cases "k = ''value''")
    case True
    with assms(1) Inr clean_value_missing [of R d d'] show ?thesis by simp
  next
    case False
    with assms(1) Inr clean_value_keys [of R d d' k] show ?thesis by simp
  qed
  then obtain e where "MechanicalProperty_init R d' = Inl e"
    using init_missing_required [OF _ assms(2)] by blast
  with Inr show ?thesis by (simp add: convert_property_def)
qed

text \<open>
  Claim C9. A record whose \<open>value\<close> is the string \<open>1,234.5\<close> has the separators removed and
  goes to the validation with the float that \<^verbatim>\<open>float("1234.5")\<close> is. A record that is not a
  dictionary, or whose string value is not a number once the separators are removed, or
  that lacks one of the required fields, leaves no trace in the result: the other records
  are converted as if it were not in the batch.
\<close>

theorem thousands_separator_and_dropped_records:
  "(map_of d ''value'' = Some (JStr ''1,234.5'') \<and> float_of_str R ''1234.5'' = Some x
      \<longrightarrow> clean_value R (JObj d) = Inr (dict_set d ''value'' (JFloat x))
          \<and> map_of (dict_set d ''value'' (JFloat x)) ''value'' = Some (JFloat x))
   \<and> ((\<not> is_dict p)
       \<or> (\<exists>c s. p = JObj c \<and> map_of c ''value'' = Some (JStr s)
              \<and> float_of_str R (str_replace '','' [] s) = None)
       \<or> (\<exists>c k. p = JObj c \<and> map_of c k = None
              \<and> k \<in> {''material'', ''property_name'', ''value'', ''unit''})
      \<longrightarrow> convert_properties R (ps @ p # qs) acc = convert_properties R (ps @ qs) acc)"
proof -
  have clean: "clean_value R (JObj d) = Inr (dict_set d ''value'' (JFloat x))"
    if "map_of d ''value'' = Some (JStr ''1,234.5'')" "float_of_str R ''1234.5'' = Some x"
    using that by (simp add: clean_value_def dict_get_def strip_separator)
  have dropped: "convert_property R p = None"
    if "(\<not> is_dict p)
       \<or> (\<exists>c s. p = JObj c \<and> map_of c ''value'' = Some (JStr s)
              \<and> float_of_str R (str_replace '','' [] s) = None)
       \<or> (\<exists>c k. p = JObj c \<and> map_of c k = None
              \<and> k \<in> {''material'', ''property_name'', ''value'', ''unit''})"
    using that
  proof (elim disjE exE conjE)
    assume "\<not> is_dict p"
    then show ?thesis by (rule convert_property_not_dict)
  next
    fix c s
    assume "p = JObj c" "map_of c ''value'' = Some (JStr s)"
      "float_of_str R (str_replace '','' [] s) = None"
    then show ?thesis using convert_property_bad_number [of c s R] by simp
  next
    fix c k
    assume "p = JObj c" "map_of c k = None"
      "k \<in> {''material'', ''property_name'', ''value'', ''unit''}"
    then show ?thesis using convert_property_missing_required [of c k R] by simp
  qed
  show ?thesis
    using clean dropped convert_properties_drop [of R p ps qs acc] dict_set_lookup
    by blast
qed

theorem thousands_separator_and_dropped_records_witness:
  "map_of [(''material'', JStr ''Mg-2Y''), (''property_name'', JStr ''UTS''),
           (''value'', JStr ''1,234.5''), (''unit'', JStr ''MPa'')] ''value''
     = Some (JStr ''1,234.5'' :: real json)
   \<and> float_of_str real_runtime ''1234.5'' = Some 1234.5
   \<and> clean_value real_runtime tensile_record =
       Inr [(''material'', JStr ''Mg-2Y''), (''property_name'', JStr ''UTS''),
            (''value'', JFloat 1234.5), (''unit'', JStr ''MPa'')]
   \<and> \<not> is_dict (JStr ''n/a'' :: real json)
   \<and> convert_properties real_runtime [tensile_record, JStr ''n/a'', hardness_record] []
       = convert_properties real_runtime [tensile_record, hardness_record] []
   \<and> convert_properties real_runtime [tensile_record, hardness_record] []
       = [\<lparr>material = ''Mg-2Y'', condition = None, property_name = ''UTS'', mp_value = 1234.5,
           mp_unit = ''MPa'', temperature = None, temperature_unit = None, strain_rate = None,
           additional_info = Some []\<rparr>,
          \<lparr>material = ''Cu'', condition = None, property_name = ''hardness'', mp_value = 95,
           mp_unit = ''HV'', temperature = None, temperature_unit = None, strain_rate = None,
           additional_info = Some []\<rparr>]"
proof -
  let ?d = "[(''material'', JStr ''Mg-2Y''), (''property_name'', JStr ''UTS''),
             (''value'', JStr ''1,234.5''), (''unit'', JStr ''MPa'')] :: (string \<times> real json) list"
  have h1: "map_of ?d ''value'' = Some (JStr ''1,234.5'')"
    by simp
  have h2: "float_of_str real_runtime ''1234.5'' = Some 1234.5"
    by (simp add: real_runtime_def)
  have h3: "\<not> is_dict (JStr ''n/a'' :: real json)"
    by simp
  note inst = thousands_separator_and_dropped_records
    [of ?d real_runtime "1234.5" "JStr ''n/a''" "[tensile_record]" "[hardness_record]" "[]"]
  from inst h1 h2 have clean: "clean_value real_runtime (JObj ?d) = Inr (dict_set ?d ''value'' (JFloat 1234.5))"
    by blast
  from inst h3 have drop: "convert_properties real_runtime ([tensile_record] @ JStr ''n/a'' # [hardness_record]) []
      = convert_properties real_runtime ([tensile_record] @ [hardness_record]) []"
    by blast
  have run: "convert_properties real_runtime [tensile_record, hardness_record] []
       = [\<lparr>material = ''Mg-2Y'', condition = None, property_name = ''UTS'', mp_value = 1234.5,
           mp_unit = ''MPa'', temperature = None, temperature_unit = None, strain_rate = None,
           additional_info = Some []\<rparr>,
          \<lparr>material = ''Cu'', condition = None, property_name = ''hardness'', mp_value = 95,
           mp_unit = ''HV'', temperature = None, temperature_unit = None, strain_rate = None,
           additional_info = Some []\<rparr>]"
    by (simp add: tensile_record_def hardness_record_def convert_property_def clean_value_def
        dict_get_def str_replace.simps real_runtime_def MechanicalProperty_init_def
        required_field_def default_field_def validate_str_def validate_float_def)
  from h1 h2 h3 clean drop run show ?thesis
    by (simp add: tensile_record_def)
qed

section \<open>Properties of save_results\<close>

lemma foldl_add_sum_list: "foldl (+) a ns = a + sum_list ns" for a :: int
  by (induction ns arbitrary: a) simp_all

lemma py_sum_sum_list: "py_sum ns = sum_list ns"
  by (simp add: py_sum_def foldl_add_sum_list)

text \<open>
  Claim C1. In the \<open>UnifiedResults\<close> that \<open>save_results\<close> constructs, \<open>data\<close> is the list of
  results it was given, \<open>papers_processed\<close> is the length of \<open>data\<close>, and
  \<open>total_properties_extracted\<close> is the sum over \<open>data\<close> of the lengths of the entries'
  \<open>mechanical_properties\<close>.
\<close>

theorem save_results_counts:
  "data (save_results date results) = results
   \<and> papers_processed (save_results date results) = int (length (data (save_results date results)))
   \<and> total_properties_extracted (save_results date results) =
       sum_list (map (\<lambda>r. int (length (mechanical_properties r)))
         (data (save_results date results)))"
  by (simp add: save_results_def py_sum_sum_list)

section \<open>Properties of process_papers\<close>

lemma process_loop_append:
  "process_loop R (xs @ ys) results w =
   (case process_loop R xs results w of (rs, w') \<Rightarrow> process_loop R ys rs w')"
  by (induction xs arbitrary: results w) (simp_all split: prod.splits sum.splits option.splits)

lemma process_loop_failed:
  "fst (process_paper R p w) = Inl e \<or> fst (process_paper R p w) = Inr None \<Longrightarrow>
   process_loop R (p # ps) results w = process_loop R ps results (snd (process_paper R p w))"
  by (cases "process_paper R p w") auto

lemma metadata_failure:
  "get_metadata R (paper_doi p) w = (Inl e, w1) \<Longrightarrow> process_paper R p w = (Inl e, w1)"
  by (simp add: process_paper_def)

lemma download_absent:
  "get_metadata R (paper_doi p) w = (Inr m, w1) \<Longrightarrow> extract_paper_info R m = Inr i \<Longrightarrow>
   make_paper_metadata R i = Inr pm \<Longrightarrow> download_pdf R (paper_doi p) w1 = (None, w2) \<Longrightarrow>
   process_paper R p w = (Inr None, w2)"
  by (simp add: process_paper_def)

lemma extraction_failure:
  "get_metadata R (paper_doi p) w = (Inr m, w1) \<Longrightarrow> extract_paper_info R m = Inr i \<Longrightarrow>
   make_paper_metadata R i = Inr pm \<Longrightarrow> download_pdf R (paper_doi p) w1 = (Some path, w2) \<Longrightarrow>
   extract_from_paper R path pm w2 = (Inl e, w3) \<Longrightarrow>
   process_paper R p w = (Inl e, w3)"
  by (simp add: process_paper_def)

text \<open>
  Claim C2. Let the loop have reached paper \<open>p\<close> with the results \<open>rs\<close> in the world \<open>w\<close>. If the
  metadata fetch raises, or the download returns nothing, or the extraction raises, or
  the processing of \<open>p\<close> raises at any other point, then the loop goes on with the papers
  after \<open>p\<close>, from the world in which \<open>p\<close> left off, and with the same results \<open>rs\<close>: the
  failed paper adds no entry and the batch is not aborted.
\<close>

theorem failed_paper_is_skipped:
  assumes "process_loop R before results w0 = (rs, w)"
    and "(\<exists>e w1. get_metadata R (paper_doi p) w = (Inl e, w1))
       \<or> (\<exists>m w1 i pm w2. get_metadata R (paper_doi p) w = (Inr m, w1)
             \<and> extract_paper_info R m = Inr i \<and> make_paper_metadata R i = Inr pm
             \<and> download_pdf R (paper_doi p) w1 = (None, w2))
       \<or> (\<exists>m w1 i pm path w2 e w3. get_metadata R (paper_doi p) w = (Inr m, w1)
             \<and> extract_paper_info R m = Inr i \<and> make_paper_metadata R i = Inr pm
             \<and> download_pdf R (paper_doi p) w1 = (Some path, w2)
             \<and> extract_from_paper R path pm w2 = (Inl e, w3))
       \<or> (\<exists>e. fst (process_paper R p w) = Inl e)
       \<or> fst (process_paper R p w) = Inr None"
  shows "process_loop R (before @ p # rest) results w0 =
         process_loop R rest rs (snd (process_paper R p w))"
proof -
  from assms(2) have "(\<exists>e. fst (process_paper R p w) = Inl e) \<or> fst (process_paper R p w) = Inr None"
  proof (elim disjE exE conjE)
    fix e w1
    assume "get_metadata R (paper_doi p) w = (Inl e, w1)"
    then show ?thesis by (simp add: metadata_failure)
  next
    fix m w1 i pm w2
    assume "get_metadata R (paper_doi p) w = (Inr m, w1)" "extract_paper_info R m = Inr i"
      "make_paper_metadata R i = Inr pm" "download_pdf R (paper_doi p) w1 = (None, w2)"
    then show ?thesis by (simp add: download_absent)
  next
    fix m w1 i pm path w2 e w3
    assume "get_metadata R (paper_doi p) w = (Inr m, w1)" "extract_paper_info R m = Inr i"
      "make_paper_metadata R i = Inr pm" "download_pdf R (paper_doi p) w1 = (Some path, w2)"
      "extract_from_paper R path pm w2 = (Inl e, w3)"
    then show ?thesis by (simp add: extraction_failure)
  next
    fix e
    assume "fst (process_paper R p w) = Inl e"
    then show ?thesis by blast
  next
    assume "fst (process_paper R p w) = Inr None"
    then show ?thesis by blast
  qed
  then have "process_loop R (p # rest) rs w = process_loop R rest rs (snd (process_paper R p w))"
    using process_loop_failed by blast
  with assms(1) show ?thesis by (simp add: process_loop_append)
qed

lemma offline_get_metadata:
  fixes v :: pipeline_world
  assumes "http_service v = http_service offline_world"
  shows "get_metadata example_runtime d v =
         (Inl (RetryError (HTTPError 404)),
          v\<lparr>request_log := request_log v @ [metadata_url d, metadata_url d, metadata_url d],
            sleep_log := sleep_log v @ [4, 4]\<rparr>)"
  by (rule get_metadata_persistent_404) (simp add: assms offline_world_def)

theorem failed_paper_is_skipped_witness:
  "process_loop example_runtime [] [] offline_world = ([], offline_world)
   \<and> (\<exists>e w1. get_metadata example_runtime (paper_doi first_paper) offline_world = (Inl e, w1))
   \<and> process_papers example_runtime offline_world =
       process_loop example_runtime [second_paper] []
         (snd (process_paper example_runtime first_paper offline_world))
   \<and> fst (process_papers example_runtime offline_world) = []
   \<and> length (request_log (snd (process_papers example_runtime offline_world))) = 6"
proof -
  have h1: "process_loop example_runtime [] [] offline_world = ([], offline_world)"
    by simp
  have h2: "\<exists>e w1. get_metadata example_runtime (paper_doi first_paper) offline_world = (Inl e, w1)"
    by (simp add: offline_get_metadata)
  have skip: "process_loop example_runtime ([] @ first_paper # [second_paper]) [] offline_world =
      process_loop example_runtime [second_paper] []
        (snd (process_paper example_runtime first_paper offline_world))"
    using h2 by (intro failed_paper_is_skipped [OF h1]) blast
  have fails: "process_paper example_runtime p v =
      (Inl (RetryError (HTTPError 404)),
       v\<lparr>request_log := request_log v @
           [metadata_url (paper_doi p), metadata_url (paper_doi p), metadata_url (paper_doi p)],
         sleep_log := sleep_log v @ [4, 4]\<rparr>)"
    if "http_service v = http_service offline_world" for v :: pipeline_world and p
    by (rule metadata_failure) (simp add: offline_get_metadata that)
  have run: "process_papers example_runtime offline_world =
      process_loop example_runtime [second_paper] []
        (snd (process_paper example_runtime first_paper offline_world))"
    using skip by (simp add: process_papers_def PAPERS_def)
  have logs: "request_log offline_world = []"
    by (simp add: offline_world_def)
  have result: "fst (process_papers example_runtime offline_world) = []"
    "length (request_log (snd (process_papers example_runtime offline_world))) = 6"
    by (simp_all add: run fails logs)
  from h1 h2 run result show ?thesis
    by simp
qed

section \<open>Properties of download_pdf\<close>

lemma latest_of_member: "latest_of f fs \<in> set (f # fs)"
  by (induction fs arbitrary: f) auto

lemma latest_of_not_older: "mtime f \<le> mtime (latest_of f fs)"
proof (induction fs arbitrary: f)
  case Nil
  then show ?case by simp
next
  case (Cons a fs)
  have "mtime f \<le> mtime (if mtime f < mtime a then a else f)"
    by simp
  also have "\<dots> \<le> mtime (latest_of (if mtime f < mtime a then a else f) fs)"
    by (rule Cons.IH)
  finally show ?case by simp
qed

lemma latest_of_latest: "g \<in> set (f # fs) \<Longrightarrow> mtime g \<le> mtime (latest_of f fs)"
proof (induction fs arbitrary: f)
  case Nil
  then show ?case by simp
next
  case (Cons a fs)
  let ?best = "if mtime f < mtime a then a else f"
  from Cons.prems consider "g = f" | "g = a" | "g \<in> set fs" by auto
  then show ?case
  proof cases
    case 1
    then show ?thesis using latest_of_not_older [of f "a # fs"] by simp
  next
    case 2
    have "mtime a \<le> mtime ?best" by simp
    also have "\<dots> \<le> mtime (latest_of ?best fs)" by (rule latest_of_not_older)
    finally show ?thesis using 2 by simp
  next
    case 3
    then have "g \<in> set (?best # fs)" by simp
    then have "mtime g \<le> mtime (latest_of ?best fs)" by (rule Cons.IH)
    then show ?thesis by simp
  qed
qed

lemma rename_file_holds:
  "f \<in> set dir \<Longrightarrow> file_name f \<noteq> new_name \<Longrightarrow>
   f\<lparr>file_name := new_name\<rparr> \<in> set (rename_file f new_name dir)"
  by (force simp: rename_file_def)

lemma pdf_files_subset: "set (pdf_files dir) \<subseteq> set dir"
  by (auto simp: pdf_files_def)

lemma collect_download_found:
  assumes "pdf_files (directory_after b (wait_for_download (\<lambda>t. directory_after b t dir0) 0) dir0)
           = f # fs"
  shows "fst (collect_download b filename dir0) = Some filename"
    and "\<exists>g \<in> set (fst (snd (collect_download b filename dir0))).
           file_name g = filename \<and> content g = content (latest_of f fs)
           \<and> mtime g = mtime (latest_of f fs)"
proof -
  let ?dir = "directory_after b (wait_for_download (\<lambda>t. directory_after b t dir0) 0) dir0"
  show "fst (collect_download b filename dir0) = Some filename"
    using assms by (simp add: collect_download_def Let_def)
  have mem: "latest_of f fs \<in> set ?dir"
    using latest_of_member [of f fs] pdf_files_subset [of ?dir] assms by auto
  show "\<exists>g \<in> set (fst (snd (collect_download b filename dir0))).
           file_name g = filename \<and> content g = content (latest_of f fs)
           \<and> mtime g = mtime (latest_of f fs)"
  proof (cases "file_name (latest_of f fs) = filename")
    case True
    with mem assms show ?thesis
      by (auto simp: collect_download_def Let_def)
  next
    case False
    with mem have "(latest_of f fs)\<lparr>file_name := filename\<rparr> \<in> set (rename_file (latest_of f fs) filename ?dir)"
      by (rule rename_file_holds)
    with False assms show ?thesis
      by (auto simp: collect_download_def Let_def intro!: bexI [of _ "(latest_of f fs)\<lparr>file_name := filename\<rparr>"])
  qed
qed

text \<open>
  Claim C10. When the browser starts, the resolver page loads and a download affordance is
  clicked (or the direct navigation is taken), and the directory holds a file whose name
  ends in \<open>.pdf\<close> once the waiting is over, \<open>download_pdf\<close> returns the canonical file name,
  and the file of that name in the directory it leaves has the content and the
  modification time of the most recently modified such file. Nothing is asked of where
  that file comes from: the directory before the click does not enter the test, so a PDF
  that was there before the click is returned like a downloaded one.
\<close>

theorem download_pdf_returns_latest_pdf:
  assumes "starts (browser_of w (doi_url (clean_doi identifier)))"
    and "loads (browser_of w (doi_url (clean_doi identifier))) (doi_url (clean_doi identifier))"
    and "download_clicked (browser_of w (doi_url (clean_doi identifier))) = Some True"
    and "pdf_files (directory_after (browser_of w (doi_url (clean_doi identifier)))
           (wait_for_download
              (\<lambda>t. directory_after (browser_of w (doi_url (clean_doi identifier))) t (files w)) 0)
           (files w)) = f # fs"
  shows "fst (download_pdf R identifier w) = Some (pdf_filename identifier)
       \<and> latest_of f fs \<in> set (f # fs)
       \<and> (\<forall>g \<in> set (f # fs). mtime g \<le> mtime (latest_of f fs))
       \<and> (\<exists>g \<in> set (files (snd (download_pdf R identifier w))).
             file_name g = pdf_filename identifier \<and> content g = content (latest_of f fs)
             \<and> mtime g = mtime (latest_of f fs))"
proof -
  let ?b = "browser_of w (doi_url (clean_doi identifier))"
  have strategy: "interactive_strategy ?b (clean_doi identifier) (pdf_filename identifier) (files w) =
                  collect_download ?b (pdf_filename identifier) (files w)"
    using assms(1-3) by (simp add: interactive_strategy_def)
  note found = collect_download_found [OF assms(4), of "pdf_filename identifier"]
  obtain dir sleeps where c: "collect_download ?b (pdf_filename identifier) (files w) =
      (Some (pdf_filename identifier), dir, sleeps)"
    using found(1) by (cases "collect_download ?b (pdf_filename identifier) (files w)") auto
  have d: "download_pdf R identifier w =
      (Some (pdf_filename identifier), w\<lparr>sleep_log := sleep_log w @ sleeps, files := dir\<rparr>)"
    by (simp add: download_pdf_def strategy c)
  from found(2) c have "\<exists>g \<in> set dir. file_name g = pdf_filename identifier
      \<and> content g = content (latest_of f fs) \<and> mtime g = mtime (latest_of f fs)"
    by simp
  with d latest_of_member [of f fs] latest_of_latest [of _ f fs] show ?thesis
    by simp
qed


lemma second_paper_key: "clean_doi (paper_doi second_paper) = ''10.3390/met14111217''"
  by code_simp

lemma second_paper_filename: "pdf_filename (paper_doi second_paper) = ''10.3390_met14111217.pdf''"
  by code_simp

lemma idle_download_clicked: "download_clicked idle_browser = Some True"
  by code_simp

lemma stale_wait: "wait_for_download (\<lambda>t. stale_directory) 0 = 0"
  by code_simp

lemma stale_pdf_files:
  "pdf_files stale_directory =
   [\<lparr>file_name = ''10.3390_cryst9110586.pdf'', mtime = 100, content = ''ECAP paper''\<rparr>]"
  by code_simp

theorem download_pdf_returns_latest_pdf_witness:
  "starts (browser_of stale_world (doi_url (clean_doi (paper_doi second_paper))))
   \<and> loads (browser_of stale_world (doi_url (clean_doi (paper_doi second_paper))))
       (doi_url (clean_doi (paper_doi second_paper)))
   \<and> download_clicked (browser_of stale_world (doi_url (clean_doi (paper_doi second_paper)))) = Some True
   \<and> files stale_world = stale_directory
   \<and> pdf_files (directory_after (browser_of stale_world (doi_url (clean_doi (paper_doi second_paper))))
        (wait_for_download
           (\<lambda>t. directory_after (browser_of stale_world (doi_url (clean_doi (paper_doi second_paper)))) t
                  (files stale_world)) 0)
        (files stale_world)) =
       [\<lparr>file_name = ''10.3390_cryst9110586.pdf'', mtime = 100, content = ''ECAP paper''\<rparr>]
   \<and> fst (download_pdf example_runtime (paper_doi second_paper) stale_world) =
       Some ''10.3390_met14111217.pdf''
   \<and> (\<exists>g \<in> set (files (snd (download_pdf example_runtime (paper_doi second_paper) stale_world))).
         file_name g = ''10.3390_met14111217.pdf'' \<and> content g = ''ECAP paper'' \<and> mtime g = 100)"
proof -
  let ?b = "browser_of stale_world (doi_url (clean_doi (paper_doi second_paper)))"
  have b: "?b = idle_browser"
    by (simp add: stale_world_def)
  have dir: "files stale_world = stale_directory"
    by (simp add: stale_world_def)
  have after: "directory_after idle_browser t d = d" for t d
    by (simp add: idle_browser_def)
  have h1: "starts ?b"
    by (simp add: b idle_browser_def)
  have h2: "loads ?b (doi_url (clean_doi (paper_doi second_paper)))"
    by (simp add: b idle_browser_def)
  have h3: "download_clicked ?b = Some True"
    by (simp only: b idle_download_clicked)
  have h4: "pdf_files (directory_after ?b
        (wait_for_download (\<lambda>t. directory_after ?b t (files stale_world)) 0)
        (files stale_world)) =
      [\<lparr>file_name = ''10.3390_cryst9110586.pdf'', mtime = 100, content = ''ECAP paper''\<rparr>]"
    by (simp only: b dir after stale_pdf_files)
  from download_pdf_returns_latest_pdf [OF h1 h2 h3 h4, of example_runtime] h1 h2 h3 h4 dir
  show ?thesis
    by (simp add: second_paper_filename)
qed
end
